theory Spec2Isabelle
  imports Complex_Main "HOL-Library.Sublist"
begin

section \<open>Domain types (types.ts)\<close>

text \<open>
  A TypeScript \<^verbatim>\<open>number\<close> is an IEEE-754 double.  The finite doubles are rational
  numbers, so the type of numbers is \<open>rat\<close>, and the arithmetic on money amounts rounds
  (section on double-precision arithmetic below).  Quantities are whole numbers far
  below \<open>2^53\<close>, where the operations on doubles are exact; the arithmetic on quantities
  is therefore written without rounding.  Identifiers and timestamps are strings.  Field
  names carry a prefix naming their interface, since several interfaces share the names
  \<^verbatim>\<open>id\<close>, \<^verbatim>\<open>name\<close>, \<^verbatim>\<open>quantity\<close>, \<^verbatim>\<open>items\<close>.
\<close>

type_synonym number = rat

record InventoryItem =
  inv_id :: string
  inv_name :: string
  inv_category :: string
  inv_quantity :: number
  costPrice :: number
  salesPrice :: number
  lowStockThreshold :: number
  lastUpdated :: string

record SaleItem =
  si_itemId :: string
  si_name :: string
  si_quantity :: number
  priceAtSale :: number
  costAtSale :: number

record SaleRecord =
  sale_id :: string
  sale_items :: "SaleItem list"
  totalAmount :: number
  totalProfit :: number
  timestamp :: string

record ExpenseRecord =
  exp_id :: string
  description :: string
  amount :: number
  exp_category :: string
  exp_date :: string
  recordedAt :: string

record PurchaseOrderItem =
  poi_itemId :: string
  poi_name :: string
  poi_quantity :: number
  unitCost :: number

datatype po_status = ordered | received | cancelled

record PurchaseOrder =
  po_id :: string
  supplier :: string
  po_date :: string
  status :: po_status
  po_items :: "PurchaseOrderItem list"
  totalCost :: number
  po_notes :: "string option"

section \<open>Double-precision arithmetic\<close>

text \<open>
  \<open>fl x\<close> is the double nearest to the rational \<open>x\<close>: a significand of 53 bits, ties
  to the even significand, and gradual underflow below \<open>2^-1022\<close>.  An operation on
  doubles is the exact operation followed by \<open>fl\<close>.  Overflow to infinity, NaN and the
  sign of zero are left out.
\<close>

definition pow2 :: "int \<Rightarrow> rat" where
  "pow2 k = (if 0 \<le> k then 2 ^ nat k else 1 / 2 ^ nat (- k))"

function bitLength :: "int \<Rightarrow> int" where
  "bitLength n = (if n \<le> 0 then 0 else 1 + bitLength (n div 2))"
  by pat_completeness auto
termination
  by (relation "measure nat") auto

text \<open>For \<open>a > 0\<close>, the \<open>e\<close> with \<open>2^e \<le> a < 2^(e+1)\<close>.\<close>

definition exponent :: "rat \<Rightarrow> int" where
  "exponent a =
     (let k = bitLength (fst (quotient_of a)) - bitLength (snd (quotient_of a))
      in if pow2 k \<le> a then k else k - 1)"

definition roundHalfEven :: "rat \<Rightarrow> int" where
  "roundHalfEven x =
     (let f = \<lfloor>x\<rfloor>; d = x - of_int f
      in if d < 1 / 2 then f else if 1 / 2 < d then f + 1 else if even f then f else f + 1)"

definition fl :: "rat \<Rightarrow> rat" where
  "fl x =
     (if x = 0 then 0
      else (let u = pow2 (max (exponent \<bar>x\<bar> - 52) (- 1074))
            in sgn x * of_int (roundHalfEven (\<bar>x\<bar> / u)) * u))"

definition fadd :: "number \<Rightarrow> number \<Rightarrow> number" where
  "fadd a b = fl (a + b)"

definition fsub :: "number \<Rightarrow> number \<Rightarrow> number" where
  "fsub a b = fl (a - b)"

definition fmul :: "number \<Rightarrow> number \<Rightarrow> number" where
  "fmul a b = fl (a * b)"

section \<open>The remote store gateway and the application state\<close>

text \<open>
  The hosted store keeps four collections.  A call to it resolves without error,
  resolves with its \<^verbatim>\<open>error\<close> field set, or rejects (the awaiting code then throws).
  A call that does not resolve cleanly leaves the store as it was.
\<close>

record remote_store =
  inventory_rows :: "InventoryItem list"
  sales_rows :: "SaleRecord list"
  expenses_rows :: "ExpenseRecord list"
  purchase_orders_rows :: "PurchaseOrder list"

datatype outcome = Resolved | ResolvedError | Rejected

datatype table = inventory_t | sales_t | expenses_t | purchase_orders_t

datatype event =
    InsertSale SaleRecord
  | InsertPO PurchaseOrder
  | UpdateInventory string number string
  | UpdatePOStatus string po_status
  | Select table
  | Alert string

text \<open>
  The component state of \<^verbatim>\<open>App\<close> (the four collections and the session), the store
  behind the gateway, the results the coming gateway calls will have (none scheduled:
  every call resolves cleanly), and the trace of gateway calls and user notices so far.
\<close>

text \<open>
  Conventions.  A handler runs to its end before the next one starts, so the inventory
  and the purchase orders a handler has captured are those of the state it is called
  in.  The identifier returned by \<^verbatim>\<open>crypto.randomUUID()\<close> and the reading of the clock
  are parameters of the handlers; the readings of the clock within one run of a handler
  are taken to be the one reading \<open>now\<close>.  A table keeps its rows in the order in which a
  read returns them.  The \<^verbatim>\<open>loading\<close> flag and the console are left out.
\<close>

record world =
  session :: bool
  inventory :: "InventoryItem list"
  sales :: "SaleRecord list"
  expenses :: "ExpenseRecord list"
  purchaseOrders :: "PurchaseOrder list"
  remote :: remote_store
  outcomes :: "outcome list"
  trace :: "event list"

definition gateway_call :: "event \<Rightarrow> (remote_store \<Rightarrow> remote_store) \<Rightarrow> world \<Rightarrow> outcome \<times> world" where
  "gateway_call ev f w =
     (case outcomes w of
        [] \<Rightarrow> (Resolved, w\<lparr>remote := f (remote w), trace := trace w @ [ev]\<rparr>)
      | oc # rest \<Rightarrow>
          (oc, w\<lparr>remote := (if oc = Resolved then f (remote w) else remote w),
                 outcomes := rest, trace := trace w @ [ev]\<rparr>))"

text \<open>Row operations of the store: insert one row, update the rows with a given id.\<close>

definition insert_sale_row :: "SaleRecord \<Rightarrow> remote_store \<Rightarrow> remote_store" where
  "insert_sale_row s r = r\<lparr>sales_rows := s # sales_rows r\<rparr>"

definition insert_po_row :: "PurchaseOrder \<Rightarrow> remote_store \<Rightarrow> remote_store" where
  "insert_po_row p r = r\<lparr>purchase_orders_rows := p # purchase_orders_rows r\<rparr>"

definition update_inventory_row :: "string \<Rightarrow> number \<Rightarrow> string \<Rightarrow> remote_store \<Rightarrow> remote_store" where
  "update_inventory_row k q t r =
     r\<lparr>inventory_rows :=
         map (\<lambda>row. if inv_id row = k then row\<lparr>inv_quantity := q, lastUpdated := t\<rparr> else row)
           (inventory_rows r)\<rparr>"

definition update_po_status_row :: "string \<Rightarrow> po_status \<Rightarrow> remote_store \<Rightarrow> remote_store" where
  "update_po_status_row k st r =
     r\<lparr>purchase_orders_rows :=
         map (\<lambda>row. if po_id row = k then row\<lparr>status := st\<rparr> else row)
           (purchase_orders_rows r)\<rparr>"

section \<open>fetchData\<close>

text \<open>
  Reads the four collections in turn.  An error on the first three throws into the
  handler's own \<^verbatim>\<open>catch\<close>, which only logs; an error result on purchase orders is
  only warned about.  Each collection read so far has already replaced its local copy.
\<close>

definition fetchData :: "world \<Rightarrow> world" where
  "fetchData w =
     (if \<not> session w then w
      else case gateway_call (Select inventory_t) (\<lambda>r. r) w of (oc1, w1) \<Rightarrow>
        if oc1 \<noteq> Resolved then w1
        else case gateway_call (Select sales_t) (\<lambda>r. r)
                    (w1\<lparr>inventory := inventory_rows (remote w1)\<rparr>) of (oc2, w2) \<Rightarrow>
          if oc2 \<noteq> Resolved then w2
          else case gateway_call (Select expenses_t) (\<lambda>r. r)
                      (w2\<lparr>sales := sales_rows (remote w2)\<rparr>) of (oc3, w3) \<Rightarrow>
            if oc3 \<noteq> Resolved then w3
            else case gateway_call (Select purchase_orders_t) (\<lambda>r. r)
                        (w3\<lparr>expenses := expenses_rows (remote w3)\<rparr>) of (oc4, w4) \<Rightarrow>
              if oc4 = Resolved then w4\<lparr>purchaseOrders := purchase_orders_rows (remote w4)\<rparr>
              else w4)"

text \<open>The \<^verbatim>\<open>catch\<close> block shared by the handlers: a notice, then a re-fetch.\<close>

definition on_error :: "string \<Rightarrow> world \<Rightarrow> world" where
  "on_error msg w = fetchData (w\<lparr>trace := trace w @ [Alert msg]\<rparr>)"

section \<open>handleCompleteSale\<close>

text \<open>\<^verbatim>\<open>Array.prototype.findIndex\<close>: the first index whose element satisfies the test, or -1.\<close>

fun findIndex :: "('a \<Rightarrow> bool) \<Rightarrow> 'a list \<Rightarrow> int" where
  "findIndex P [] = -1"
| "findIndex P (x # xs) =
     (if P x then 0 else (if findIndex P xs > -1 then findIndex P xs + 1 else -1))"

definition newSaleRecord :: "string \<Rightarrow> string \<Rightarrow> SaleItem list \<Rightarrow> SaleRecord" where
  "newSaleRecord uuid now items =
     (let totalAmount =
            foldl (\<lambda>sum item. fadd sum (fmul (si_quantity item) (priceAtSale item))) 0 items;
          totalCost =
            foldl (\<lambda>sum item. fadd sum (fmul (si_quantity item) (costAtSale item))) 0 items
      in \<lparr>sale_id = uuid, sale_items = items, totalAmount = totalAmount,
          totalProfit = fsub totalAmount totalCost, timestamp = now\<rparr>)"

text \<open>The body of the \<^verbatim>\<open>forEach\<close> of the optimistic update, for one sale item.\<close>

definition sellItem :: "string \<Rightarrow> InventoryItem list \<Rightarrow> SaleItem \<Rightarrow> InventoryItem list" where
  "sellItem now newInventory saleItem =
     (let productIndex = findIndex (\<lambda>p. inv_id p = si_itemId saleItem) newInventory
      in if productIndex > -1
         then newInventory[nat productIndex :=
                (newInventory ! nat productIndex)
                  \<lparr>inv_quantity := inv_quantity (newInventory ! nat productIndex) - si_quantity saleItem,
                   lastUpdated := now\<rparr>]
         else newInventory)"

definition optimisticSale :: "string \<Rightarrow> string \<Rightarrow> SaleItem list \<Rightarrow> world \<Rightarrow> world" where
  "optimisticSale uuid now items w =
     w\<lparr>inventory := foldl (sellItem now) (inventory w) items,
       sales := newSaleRecord uuid now items # sales w\<rparr>"

text \<open>
  The loop of remote quantity updates.  It reads the inventory captured by the handler
  before the optimistic update.  The result of an update is not inspected, so only a
  rejected call leaves the loop (the flag is then False).
\<close>

fun updateQuantities :: "InventoryItem list \<Rightarrow> string \<Rightarrow> SaleItem list \<Rightarrow> world \<Rightarrow> bool \<times> world" where
  "updateQuantities snapshot now [] w = (True, w)"
| "updateQuantities snapshot now (item # items) w =
     (case find (\<lambda>i. inv_id i = si_itemId item) snapshot of
        None \<Rightarrow> updateQuantities snapshot now items w
      | Some currentItem \<Rightarrow>
          (case gateway_call
                  (UpdateInventory (si_itemId item) (inv_quantity currentItem - si_quantity item) now)
                  (update_inventory_row (si_itemId item)
                     (inv_quantity currentItem - si_quantity item) now) w of
             (oc, w') \<Rightarrow>
               if oc = Rejected then (False, w') else updateQuantities snapshot now items w'))"

definition persistSale :: "InventoryItem list \<Rightarrow> string \<Rightarrow> string \<Rightarrow> SaleItem list \<Rightarrow> world \<Rightarrow> world" where
  "persistSale snapshot uuid now items w =
     (case gateway_call (InsertSale (newSaleRecord uuid now items))
             (insert_sale_row (newSaleRecord uuid now items)) w of
        (oc, w1) \<Rightarrow>
          if oc \<noteq> Resolved
          then on_error ''Error saving sale to database. Please check connection.'' w1
          else case updateQuantities snapshot now items w1 of
                 (True, w2) \<Rightarrow> w2
               | (False, w2) \<Rightarrow>
                   on_error ''Error saving sale to database. Please check connection.'' w2)"

definition handleCompleteSale :: "string \<Rightarrow> string \<Rightarrow> SaleItem list \<Rightarrow> world \<Rightarrow> world" where
  "handleCompleteSale uuid now items w =
     persistSale (inventory w) uuid now items (optimisticSale uuid now items w)"

section \<open>Purchase orders: handleSubmitOrder, handleCreatePO, handleUpdatePOStatus\<close>

text \<open>\<^verbatim>\<open>Omit<PurchaseOrder, 'id'>\<close>, the argument of \<^verbatim>\<open>handleCreatePO\<close>.\<close>

record NewPurchaseOrder =
  npo_supplier :: string
  npo_date :: string
  npo_status :: po_status
  npo_items :: "PurchaseOrderItem list"
  npo_totalCost :: number
  npo_notes :: "string option"

definition handleCreatePO :: "string \<Rightarrow> NewPurchaseOrder \<Rightarrow> world \<Rightarrow> world" where
  "handleCreatePO uuid po w =
     (let newPO = \<lparr>po_id = uuid, supplier = npo_supplier po, po_date = npo_date po,
                    status = npo_status po, po_items = npo_items po,
                    totalCost = npo_totalCost po, po_notes = npo_notes po\<rparr>
      in case gateway_call (InsertPO newPO) (insert_po_row newPO)
                (w\<lparr>purchaseOrders := newPO # purchaseOrders w\<rparr>) of
           (oc, w1) \<Rightarrow>
             if oc \<noteq> Resolved then on_error ''Failed to save Purchase Order.'' w1 else w1)"

text \<open>The create form of \<^verbatim>\<open>PurchaseOrdersManager\<close>; its \<^verbatim>\<open>onCreateOrder\<close> is \<^verbatim>\<open>handleCreatePO\<close>.\<close>

datatype view_mode = list_view | create_view

record order_form =
  form_supplier :: string
  form_notes :: string
  orderItems :: "PurchaseOrderItem list"
  viewMode :: view_mode

definition handleSubmitOrder :: "string \<Rightarrow> string \<Rightarrow> order_form \<Rightarrow> world \<Rightarrow> order_form \<times> world" where
  "handleSubmitOrder uuid now form w =
     (if form_supplier form = [] \<or> length (orderItems form) = 0
      then (form, w\<lparr>trace := trace w
              @ [Alert ''Please provide a supplier name and add at least one item.'']\<rparr>)
      else
        (let totalCost = foldl (\<lambda>acc item. fadd acc (fmul (poi_quantity item) (unitCost item))) 0
                           (orderItems form)
         in (form\<lparr>form_supplier := [], form_notes := [], orderItems := [], viewMode := list_view\<rparr>,
             handleCreatePO uuid
               \<lparr>npo_supplier = form_supplier form, npo_date = now, npo_status = ordered,
                npo_items = orderItems form, npo_totalCost = totalCost,
                npo_notes = Some (form_notes form)\<rparr> w)))"

text \<open>The second parameter of \<^verbatim>\<open>handleUpdatePOStatus\<close> has type \<^verbatim>\<open>'received' | 'cancelled'\<close>.\<close>

datatype terminal_status = to_received | to_cancelled

fun as_status :: "terminal_status \<Rightarrow> po_status" where
  "as_status to_received = received"
| "as_status to_cancelled = cancelled"

text \<open>
  The restocking loop: the local copy and the store are updated item by item, each write
  carrying the running quantity.  A rejected call leaves the loop before
  \<^verbatim>\<open>setInventory\<close>, so no local inventory is returned then.
\<close>

fun receiveItems :: "string \<Rightarrow> PurchaseOrderItem list \<Rightarrow> InventoryItem list \<Rightarrow> world
    \<Rightarrow> InventoryItem list option \<times> world" where
  "receiveItems now [] updatedInventory w = (Some updatedInventory, w)"
| "receiveItems now (item # rest) updatedInventory w =
     (let invIndex = findIndex (\<lambda>i. inv_id i = poi_itemId item) updatedInventory
      in if invIndex > -1
         then
           (let currentInv = updatedInventory ! nat invIndex;
                newQty = inv_quantity currentInv + poi_quantity item
            in case gateway_call (UpdateInventory (poi_itemId item) newQty now)
                      (update_inventory_row (poi_itemId item) newQty now) w of
                 (oc, w') \<Rightarrow>
                   if oc = Rejected then (None, w')
                   else receiveItems now rest
                          (updatedInventory[nat invIndex :=
                             currentInv\<lparr>inv_quantity := newQty, lastUpdated := now\<rparr>]) w')
         else receiveItems now rest updatedInventory w)"

definition handleUpdatePOStatus :: "string \<Rightarrow> string \<Rightarrow> terminal_status \<Rightarrow> world \<Rightarrow> world" where
  "handleUpdatePOStatus now pid st w =
     (case find (\<lambda>p. po_id p = pid) (purchaseOrders w) of
        None \<Rightarrow> w
      | Some po \<Rightarrow>
          (case gateway_call (UpdatePOStatus pid (as_status st))
                  (update_po_status_row pid (as_status st))
                  (w\<lparr>purchaseOrders :=
                       map (\<lambda>p. if po_id p = pid then p\<lparr>status := as_status st\<rparr> else p)
                         (purchaseOrders w)\<rparr>) of
             (oc, w1) \<Rightarrow>
               if oc \<noteq> Resolved then on_error ''Failed to update order status.'' w1
               else if as_status st = received \<and> status po \<noteq> received
               then (case receiveItems now (po_items po) (inventory w) w1 of
                       (Some updatedInventory, w2) \<Rightarrow> w2\<lparr>inventory := updatedInventory\<rparr>
                     | (None, w2) \<Rightarrow> on_error ''Failed to update order status.'' w2)
               else w1))"

section \<open>The dashboard's seven-day chart (Dashboard.tsx)\<close>

subsection \<open>The platform's Date\<close>

text \<open>
  The operations of the ECMAScript \<^verbatim>\<open>Date\<close> that \<^verbatim>\<open>chartData\<close> calls, on a time value
  in milliseconds since the epoch.  They follow the definitions of the language standard:
  the day number, the first day of a year, the day within the year, and the month and
  the day of the month from the table of month starts.  The year of a day is computed in
  400-year eras counted from 1 March.

  The local zone is given by its offset from UTC in milliseconds, once as a function of
  the UTC time and once as a function of the local time (the standard's
  \<^verbatim>\<open>LocalTZA(t, true)\<close> and \<^verbatim>\<open>LocalTZA(t, false)\<close>): the two differ around a
  daylight-saving change.
\<close>

record zone =
  utc_offset :: "int \<Rightarrow> int"
  local_offset :: "int \<Rightarrow> int"

definition msPerDay :: int where
  "msPerDay = 86400000"

definition Day :: "int \<Rightarrow> int" where
  "Day t = t div msPerDay"

definition TimeWithinDay :: "int \<Rightarrow> int" where
  "TimeWithinDay t = t mod msPerDay"

definition InLeapYear :: "int \<Rightarrow> int" where
  "InLeapYear y = (if (y mod 4 = 0 \<and> y mod 100 \<noteq> 0) \<or> y mod 400 = 0 then 1 else 0)"

definition DayFromYear :: "int \<Rightarrow> int" where
  "DayFromYear y =
     365 * (y - 1970) + (y - 1969) div 4 - (y - 1901) div 100 + (y - 1601) div 400"

definition YearFromTime :: "int \<Rightarrow> int" where
  "YearFromTime t =
     (let z = Day t + 719468;
          doe = z mod 146097;
          yoe = (doe - doe div 1460 + doe div 36524 - doe div 146096) div 365;
          doy = doe - (365 * yoe + yoe div 4 - yoe div 100)
      in yoe + (z div 146097) * 400 + (if (5 * doy + 2) div 153 < 10 then 0 else 1))"

definition DayWithinYear :: "int \<Rightarrow> int" where
  "DayWithinYear t = Day t - DayFromYear (YearFromTime t)"

text \<open>Months are numbered from 0, days of the month from 1.\<close>

definition monthStart :: "int \<Rightarrow> int \<Rightarrow> int" where
  "monthStart leap m =
     (if m = 0 then 0 else if m = 1 then 31 else if m = 2 then 59 + leap
      else if m = 3 then 90 + leap else if m = 4 then 120 + leap
      else if m = 5 then 151 + leap else if m = 6 then 181 + leap
      else if m = 7 then 212 + leap else if m = 8 then 243 + leap
      else if m = 9 then 273 + leap else if m = 10 then 304 + leap else 334 + leap)"

definition MonthFromTime :: "int \<Rightarrow> int" where
  "MonthFromTime t =
     (let d = DayWithinYear t; leap = InLeapYear (YearFromTime t)
      in if d < 31 then 0 else if d < 59 + leap then 1 else if d < 90 + leap then 2
         else if d < 120 + leap then 3 else if d < 151 + leap then 4
         else if d < 181 + leap then 5 else if d < 212 + leap then 6
         else if d < 243 + leap then 7 else if d < 273 + leap then 8
         else if d < 304 + leap then 9 else if d < 334 + leap then 10 else 11)"

definition DateFromTime :: "int \<Rightarrow> int" where
  "DateFromTime t =
     DayWithinYear t - monthStart (InLeapYear (YearFromTime t)) (MonthFromTime t) + 1"

definition MakeDay :: "int \<Rightarrow> int \<Rightarrow> int \<Rightarrow> int" where
  "MakeDay year month dt =
     (let ym = year + month div 12; mn = month mod 12
      in DayFromYear ym + monthStart (InLeapYear ym) mn + dt - 1)"

definition MakeDate :: "int \<Rightarrow> int \<Rightarrow> int" where
  "MakeDate day time = day * msPerDay + time"

definition getDate :: "zone \<Rightarrow> int \<Rightarrow> int" where
  "getDate z tv = DateFromTime (tv + utc_offset z tv)"

definition setDate :: "zone \<Rightarrow> int \<Rightarrow> int \<Rightarrow> int" where
  "setDate z tv dt =
     (let t = tv + utc_offset z tv;
          newDate = MakeDate (MakeDay (YearFromTime t) (MonthFromTime t) dt) (TimeWithinDay t)
      in newDate - local_offset z newDate)"

definition digit :: "int \<Rightarrow> char" where
  "digit n = ''0123456789'' ! nat (n mod 10)"

definition pad2 :: "int \<Rightarrow> string" where
  "pad2 n = [digit (n div 10), digit n]"

definition pad3 :: "int \<Rightarrow> string" where
  "pad3 n = [digit (n div 100), digit (n div 10), digit n]"

definition pad4 :: "int \<Rightarrow> string" where
  "pad4 n = [digit (n div 1000), digit (n div 100), digit (n div 10), digit n]"

definition isoYear :: "int \<Rightarrow> string" where
  "isoYear y =
     (if 0 \<le> y \<and> y \<le> 9999 then pad4 y
      else (if y < 0 then ''-'' else ''+'') @ pad2 (\<bar>y\<bar> div 10000) @ pad4 \<bar>y\<bar>)"

definition toISOString :: "int \<Rightarrow> string" where
  "toISOString tv =
     isoYear (YearFromTime tv) @ ''-'' @ pad2 (MonthFromTime tv + 1) @ ''-''
       @ pad2 (DateFromTime tv) @ ''T'' @ pad2 (TimeWithinDay tv div 3600000) @ '':''
       @ pad2 (TimeWithinDay tv div 60000 mod 60) @ '':''
       @ pad2 (TimeWithinDay tv div 1000 mod 60) @ ''.'' @ pad3 (TimeWithinDay tv mod 1000)
       @ ''Z''"

subsection \<open>chartData\<close>

record chart_point =
  cp_date :: string
  fullDate :: string
  cp_sales :: number
  cp_profit :: number

text \<open>
  The key of the day \<open>i\<close> days back: \<^verbatim>\<open>d.setDate(d.getDate() - i)\<close> on the current time,
  then \<^verbatim>\<open>d.toISOString().split('T')[0]\<close>.  The seven readings of the clock within one
  evaluation are taken to be the one reading \<open>now\<close>.
\<close>

definition dayKey :: "zone \<Rightarrow> int \<Rightarrow> nat \<Rightarrow> string" where
  "dayKey z now i =
     takeWhile (\<lambda>c. c \<noteq> CHR ''T'') (toISOString (setDate z now (getDate z now - int i)))"

definition chartData :: "zone \<Rightarrow> int \<Rightarrow> SaleRecord list \<Rightarrow> chart_point list" where
  "chartData z now saleRecords =
     (let last7Days = rev (map (dayKey z now) [0..<7])
      in map (\<lambda>date.
                (let daySales = filter (\<lambda>s. prefix date (timestamp s)) saleRecords
                 in \<lparr>cp_date = drop 5 date, fullDate = date,
                     cp_sales = foldl (\<lambda>acc s. fadd acc (totalAmount s)) 0 daySales,
                     cp_profit = foldl (\<lambda>acc s. fadd acc (totalProfit s)) 0 daySales\<rparr>))
           last7Days)"

section \<open>Vocabulary for the properties\<close>

text \<open>
  The stock of the product with a given id (the first entry with that id, as
  \<^verbatim>\<open>find\<close> and \<^verbatim>\<open>findIndex\<close> select it), the quantity a sale moves for one id, and the
  relation between two versions of an entry that differ at most in quantity and
  \<^verbatim>\<open>lastUpdated\<close>.
\<close>

definition quantityOf :: "string \<Rightarrow> InventoryItem list \<Rightarrow> number option" where
  "quantityOf k ps = map_option inv_quantity (find (\<lambda>p. inv_id p = k) ps)"

definition soldTotal :: "string \<Rightarrow> SaleItem list \<Rightarrow> number" where
  "soldTotal k items = sum_list (map si_quantity (filter (\<lambda>saleItem. si_itemId saleItem = k) items))"

definition sameButStock :: "InventoryItem \<Rightarrow> InventoryItem \<Rightarrow> bool" where
  "sameButStock p p' \<longleftrightarrow>
     inv_id p' = inv_id p \<and> inv_name p' = inv_name p \<and> inv_category p' = inv_category p \<and>
     costPrice p' = costPrice p \<and> salesPrice p' = salesPrice p \<and>
     lowStockThreshold p' = lowStockThreshold p"

text \<open>The effect of one sale item on the entry it matches, and the update of the first
  entry with a given id.\<close>

definition sold :: "string \<Rightarrow> SaleItem \<Rightarrow> InventoryItem \<Rightarrow> InventoryItem" where
  "sold now saleItem p = p\<lparr>inv_quantity := inv_quantity p - si_quantity saleItem, lastUpdated := now\<rparr>"

fun updateFirst :: "string \<Rightarrow> (InventoryItem \<Rightarrow> InventoryItem) \<Rightarrow> InventoryItem list \<Rightarrow> InventoryItem list" where
  "updateFirst k f [] = []"
| "updateFirst k f (p # ps) = (if inv_id p = k then f p # ps else p # updateFirst k f ps)"

text \<open>The effect of a gateway call on the store when it resolves cleanly, and the quantity
  updates the sale handler sends for a list of sale items against a snapshot.\<close>

fun applyEvent :: "event \<Rightarrow> remote_store \<Rightarrow> remote_store" where
  "applyEvent (InsertSale s) r = insert_sale_row s r"
| "applyEvent (InsertPO p) r = insert_po_row p r"
| "applyEvent (UpdateInventory k q t) r = update_inventory_row k q t r"
| "applyEvent (UpdatePOStatus k st) r = update_po_status_row k st r"
| "applyEvent (Select t) r = r"
| "applyEvent (Alert msg) r = r"

definition applyEvents :: "event list \<Rightarrow> remote_store \<Rightarrow> remote_store" where
  "applyEvents evs r = foldl (\<lambda>r ev. applyEvent ev r) r evs"

definition inventoryWrites :: "InventoryItem list \<Rightarrow> string \<Rightarrow> SaleItem list \<Rightarrow> event list" where
  "inventoryWrites snapshot now items =
     concat (map (\<lambda>item. case find (\<lambda>i. inv_id i = si_itemId item) snapshot of
                            None \<Rightarrow> []
                          | Some currentItem \<Rightarrow>
                              [UpdateInventory (si_itemId item)
                                 (inv_quantity currentItem - si_quantity item) now]) items)"

text \<open>
  The sum of quantity times price as the handlers compute it (from the left, each product
  and each sum rounded), and the lists on which no product and no running sum needs
  rounding.
\<close>

definition roundedTotal :: "('a \<Rightarrow> number) \<Rightarrow> ('a \<Rightarrow> number) \<Rightarrow> 'a list \<Rightarrow> number" where
  "roundedTotal q p items = foldl (\<lambda>sum item. fadd sum (fmul (q item) (p item))) 0 items"

fun roundingFree :: "('a \<Rightarrow> number) \<Rightarrow> ('a \<Rightarrow> number) \<Rightarrow> number \<Rightarrow> 'a list \<Rightarrow> bool" where
  "roundingFree q p acc [] = True"
| "roundingFree q p acc (item # items) =
     (fl (q item * p item) = q item * p item \<and>
      fl (acc + q item * p item) = acc + q item * p item \<and>
      roundingFree q p (acc + q item * p item) items)"

text \<open>The double-precision sum of a list, from the left.\<close>

definition dsum :: "number list \<Rightarrow> number" where
  "dsum xs = foldl fadd 0 xs"

subsection \<open>A small shop\<close>

definition itemA :: InventoryItem where
  "itemA = \<lparr>inv_id = ''A'', inv_name = ''Rice'', inv_category = ''Food'', inv_quantity = 10,
            costPrice = 2, salesPrice = 3, lowStockThreshold = 1, lastUpdated = ''t0''\<rparr>"

definition itemB :: InventoryItem where
  "itemB = \<lparr>inv_id = ''B'', inv_name = ''Soap'', inv_category = ''Home'', inv_quantity = 4,
            costPrice = 1, salesPrice = 5/2, lowStockThreshold = 1, lastUpdated = ''t0''\<rparr>"

definition shop :: world where
  "shop = \<lparr>session = True, inventory = [itemA, itemB], sales = [], expenses = [],
           purchaseOrders = [],
           remote = \<lparr>inventory_rows = [itemA, itemB], sales_rows = [], expenses_rows = [],
                     purchase_orders_rows = []\<rparr>,
           outcomes = [], trace = []\<rparr>"

definition sellA :: "number \<Rightarrow> SaleItem" where
  "sellA q = \<lparr>si_itemId = ''A'', si_name = ''Rice'', si_quantity = q, priceAtSale = 3, costAtSale = 2\<rparr>"

definition sellB :: "number \<Rightarrow> SaleItem" where
  "sellB q = \<lparr>si_itemId = ''B'', si_name = ''Soap'', si_quantity = q, priceAtSale = 5/2, costAtSale = 1\<rparr>"

text \<open>The user notices in a trace, in order.\<close>

fun notices :: "event list \<Rightarrow> string list" where
  "notices [] = []"
| "notices (Alert msg # evs) = msg # notices evs"
| "notices (ev # evs) = notices evs"

text \<open>A sale item whose id no inventory entry carries.\<close>

definition itemC :: SaleItem where
  "itemC = \<lparr>si_itemId = ''C'', si_name = ''Gone'', si_quantity = 1, priceAtSale = 7, costAtSale = 4\<rparr>"

text \<open>The double nearest to 0.1, and a sale of three pieces at that price.\<close>

definition tenth :: number where
  "tenth = fl (1 / 10)"

definition threeDimes :: SaleItem where
  "threeDimes = \<lparr>si_itemId = ''A'', si_name = ''Rice'', si_quantity = 3, priceAtSale = tenth,
                  costAtSale = 0\<rparr>"

subsection \<open>Vocabulary for purchase orders\<close>

text \<open>
  The quantity an order brings for one id, the effect of one order line on the entry it
  matches and on the inventory, the quantity updates the restocking loop sends, the
  optimistic status update, and the actions the purchase-order screen offers for an
  order (its two buttons are rendered for orders in state \<^verbatim>\<open>ordered\<close> only).
\<close>

definition orderedTotal :: "string \<Rightarrow> PurchaseOrderItem list \<Rightarrow> number" where
  "orderedTotal k items = sum_list (map poi_quantity (filter (\<lambda>item. poi_itemId item = k) items))"

definition restocked :: "string \<Rightarrow> PurchaseOrderItem \<Rightarrow> InventoryItem \<Rightarrow> InventoryItem" where
  "restocked now item p = p\<lparr>inv_quantity := inv_quantity p + poi_quantity item, lastUpdated := now\<rparr>"

definition restock :: "string \<Rightarrow> InventoryItem list \<Rightarrow> PurchaseOrderItem \<Rightarrow> InventoryItem list" where
  "restock now ps item = updateFirst (poi_itemId item) (restocked now item) ps"

fun receiptWrites :: "string \<Rightarrow> InventoryItem list \<Rightarrow> PurchaseOrderItem list \<Rightarrow> event list" where
  "receiptWrites now ps [] = []"
| "receiptWrites now ps (item # rest) =
     (case find (\<lambda>i. inv_id i = poi_itemId item) ps of
        None \<Rightarrow> receiptWrites now ps rest
      | Some currentInv \<Rightarrow>
          UpdateInventory (poi_itemId item) (inv_quantity currentInv + poi_quantity item) now
            # receiptWrites now (restock now ps item) rest)"

definition setStatus :: "string \<Rightarrow> po_status \<Rightarrow> PurchaseOrder list \<Rightarrow> PurchaseOrder list" where
  "setStatus pid s pos = map (\<lambda>p. if po_id p = pid then p\<lparr>status := s\<rparr> else p) pos"

definition statusActions :: "PurchaseOrder \<Rightarrow> terminal_status list" where
  "statusActions po = (if status po = ordered then [to_received, to_cancelled] else [])"

subsection \<open>An order and a form\<close>

definition orderA5 :: PurchaseOrder where
  "orderA5 = \<lparr>po_id = ''po1'', supplier = ''Acme'', po_date = ''t0'', status = ordered,
              po_items = [\<lparr>poi_itemId = ''A'', poi_name = ''Rice'', poi_quantity = 5, unitCost = 2\<rparr>],
              totalCost = 10, po_notes = None\<rparr>"

definition shopWithOrder :: "po_status \<Rightarrow> world" where
  "shopWithOrder s =
     shop\<lparr>purchaseOrders := [orderA5\<lparr>status := s\<rparr>],
          remote := (remote shop)\<lparr>purchase_orders_rows := [orderA5\<lparr>status := s\<rparr>]\<rparr>\<rparr>"

definition formXY :: order_form where
  "formXY = \<lparr>form_supplier = ''Acme'', form_notes = '''',
              orderItems = [\<lparr>poi_itemId = ''X'', poi_name = ''Oil'', poi_quantity = 3, unitCost = 4\<rparr>,
                            \<lparr>poi_itemId = ''Y'', poi_name = ''Salt'', poi_quantity = 2, unitCost = 10\<rparr>],
              viewMode = create_view\<rparr>"

text \<open>A form ordering three pieces at the unit cost 0.1.\<close>

definition formDimes :: order_form where
  "formDimes = \<lparr>form_supplier = ''Acme'', form_notes = [],
                 orderItems = [\<lparr>poi_itemId = ''A'', poi_name = ''Rice'', poi_quantity = 3,
                                unitCost = tenth\<rparr>],
                 viewMode = create_view\<rparr>"

subsection \<open>Vocabulary for the chart\<close>

text \<open>
  The UTC calendar date of a time value (the part of \<^verbatim>\<open>toISOString\<close> before the
  \<^verbatim>\<open>T\<close>), its calendar date in the local zone, and a sale recorded at a given time (its
  timestamp is \<^verbatim>\<open>new Date().toISOString()\<close>, as \<^verbatim>\<open>handleCompleteSale\<close> sets it).
\<close>

definition utcDate :: "int \<Rightarrow> string" where
  "utcDate tv = takeWhile (\<lambda>c. c \<noteq> CHR ''T'') (toISOString tv)"




text \<open>
  The zone's offset does not change within the week: the offset at each of the seven local
  times the chart steps back to is the offset at the current time.
\<close>

definition steadyOffset :: "zone \<Rightarrow> int \<Rightarrow> bool" where
  "steadyOffset z now \<longleftrightarrow>
     list_all (\<lambda>i. local_offset z (now + utc_offset z now - i * msPerDay) = utc_offset z now)
       [6, 5, 4, 3, 2, 1, 0]"


definition london :: zone where
  "london =
     \<lparr>utc_offset = (\<lambda>t. if 1711846800000 \<le> t \<and> t < 1729990800000 then 3600000 else 0),
      local_offset = (\<lambda>t. if 1711850400000 \<le> t \<and> t < 1729994400000 then 3600000 else 0)\<rparr>"


definition clockApril :: int where
  "clockApril = 1712100600000"


text \<open>
  The quantity of the last sale item with a given id, and the quantity the store holds
  for an id after the quantity updates of a sale: the captured quantity minus the last
  quantity sold, where the store, the captured inventory and the sale all know the id.
\<close>

definition lastSold :: "string \<Rightarrow> SaleItem list \<Rightarrow> number option" where
  "lastSold k items =
     (case rev (filter (\<lambda>saleItem. si_itemId saleItem = k) items) of
        [] \<Rightarrow> None
      | saleItem # _ \<Rightarrow> Some (si_quantity saleItem))"

definition storeQuantity :: "number option \<Rightarrow> number option \<Rightarrow> number option \<Rightarrow> number option" where
  "storeQuantity before captured soldLast =
     (case (captured, soldLast) of
        (Some q0, Some q) \<Rightarrow> map_option (\<lambda>_. q0 - q) before
      | _ \<Rightarrow> before)"

section \<open>Properties of the sale handler\<close>

subsection \<open>findIndex and the optimistic update\<close>

lemma findIndex_lower: "findIndex P xs \<ge> -1"
  by (induction xs) auto

lemma findIndex_found: "findIndex P xs > -1 \<longleftrightarrow> (\<exists>x\<in>set xs. P x)"
  by (induction xs) auto

lemma findIndex_find:
  "find P xs = (if findIndex P xs > -1 then Some (xs ! nat (findIndex P xs)) else None)"
  by (induction xs) (auto simp: nat_add_distrib)

lemma findIndex_update:
  "findIndex (\<lambda>p. inv_id p = k) ps > -1 \<Longrightarrow>
   ps[nat (findIndex (\<lambda>p. inv_id p = k) ps) := f (ps ! nat (findIndex (\<lambda>p. inv_id p = k) ps))]
     = updateFirst k f ps"
  by (induction ps) (auto simp: nat_add_distrib)

lemma updateFirst_absent: "findIndex (\<lambda>p. inv_id p = k) ps \<le> -1 \<Longrightarrow> updateFirst k f ps = ps"
  by (induction ps) (auto split: if_splits)

lemma sellItem_updateFirst:
  "sellItem now ps saleItem = updateFirst (si_itemId saleItem) (sold now saleItem) ps"
proof (cases "findIndex (\<lambda>p. inv_id p = si_itemId saleItem) ps > -1")
  case True
  then show ?thesis
    using findIndex_update [of "si_itemId saleItem" ps "sold now saleItem"]
    by (simp add: sellItem_def sold_def Let_def)
next
  case False
  then show ?thesis
    using updateFirst_absent [of "si_itemId saleItem" ps "sold now saleItem"]
    by (simp add: sellItem_def Let_def)
qed

lemma length_updateFirst: "length (updateFirst k f ps) = length ps"
  by (induction ps) auto

lemma find_updateFirst:
  "(\<And>p. inv_id (f p) = inv_id p) \<Longrightarrow>
   find (\<lambda>p. inv_id p = j) (updateFirst k f ps) =
     (if j = k then map_option f (find (\<lambda>p. inv_id p = k) ps) else find (\<lambda>p. inv_id p = j) ps)"
  by (induction ps) auto

lemma quantityOf_sellItem:
  "quantityOf k (sellItem now ps saleItem) =
     (if si_itemId saleItem = k then map_option (\<lambda>q. q - si_quantity saleItem) (quantityOf k ps)
      else quantityOf k ps)"
  by (auto simp: quantityOf_def sellItem_updateFirst find_updateFirst sold_def option.map_comp comp_def)

lemma quantityOf_foldl_sellItem:
  "quantityOf k (foldl (sellItem now) ps items) =
     map_option (\<lambda>q. q - soldTotal k items) (quantityOf k ps)"
proof (induction items arbitrary: ps)
  case Nil
  show ?case by (simp add: soldTotal_def option.map_ident)
next
  case (Cons a items)
  show ?case
    by (simp add: Cons.IH quantityOf_sellItem soldTotal_def option.map_comp comp_def algebra_simps)
qed

lemma nth_updateFirst:
  "i < length ps \<Longrightarrow>
     updateFirst k f ps ! i = ps ! i \<or> (inv_id (ps ! i) = k \<and> updateFirst k f ps ! i = f (ps ! i))"
proof (induction ps arbitrary: i)
  case Nil
  then show ?case by simp
next
  case (Cons p ps)
  then show ?case by (cases i) auto
qed

lemma length_sellItem: "length (sellItem now ps saleItem) = length ps"
  by (simp add: sellItem_updateFirst length_updateFirst)

lemma length_foldl_sellItem: "length (foldl (sellItem now) ps items) = length ps"
  by (induction items arbitrary: ps) (simp_all add: length_sellItem)

lemma sameButStock_refl: "sameButStock p p"
  by (simp add: sameButStock_def)

lemma sameButStock_trans: "sameButStock p q \<Longrightarrow> sameButStock q r \<Longrightarrow> sameButStock p r"
  by (simp add: sameButStock_def)

lemma sameButStock_sold: "sameButStock p (sold now saleItem p)"
  by (simp add: sameButStock_def sold_def)

lemma nth_sellItem:
  assumes "i < length ps"
  shows "sameButStock (ps ! i) (sellItem now ps saleItem ! i)"
    and "inv_id (ps ! i) \<noteq> si_itemId saleItem \<Longrightarrow> sellItem now ps saleItem ! i = ps ! i"
  using nth_updateFirst [OF assms, of "si_itemId saleItem" "sold now saleItem"]
  by (auto simp: sellItem_updateFirst sameButStock_refl sameButStock_sold)

lemma nth_foldl_sellItem:
  "i < length ps \<Longrightarrow>
     sameButStock (ps ! i) (foldl (sellItem now) ps items ! i) \<and>
     (inv_id (ps ! i) \<notin> si_itemId ` set items \<longrightarrow> foldl (sellItem now) ps items ! i = ps ! i)"
proof (induction items arbitrary: ps)
  case Nil
  then show ?case by (simp add: sameButStock_refl)
next
  case (Cons a items)
  have len: "i < length (sellItem now ps a)"
    using Cons.prems by (simp add: length_sellItem)
  have step: "sameButStock (ps ! i) (sellItem now ps a ! i)"
    using Cons.prems by (rule nth_sellItem(1))
  have ih: "sameButStock (sellItem now ps a ! i) (foldl (sellItem now) (sellItem now ps a) items ! i)"
    and ih2: "inv_id (sellItem now ps a ! i) \<notin> si_itemId ` set items \<longrightarrow>
       foldl (sellItem now) (sellItem now ps a) items ! i = sellItem now ps a ! i"
    using Cons.IH [OF len] by simp_all
  have same_id: "inv_id (sellItem now ps a ! i) = inv_id (ps ! i)"
    using step by (simp add: sameButStock_def)
  show ?case
    using sameButStock_trans [OF step ih] ih2 same_id nth_sellItem(2) [OF Cons.prems, of a now]
    by auto
qed

subsection \<open>A run in which every gateway call resolves cleanly\<close>

lemma gateway_call_clean:
  "outcomes w = [] \<Longrightarrow>
     gateway_call ev f w = (Resolved, w\<lparr>remote := f (remote w), trace := trace w @ [ev]\<rparr>)"
  by (simp add: gateway_call_def)

lemma applyEvents_Nil: "applyEvents [] r = r"
  by (simp add: applyEvents_def)

lemma applyEvents_Cons: "applyEvents (ev # evs) r = applyEvents evs (applyEvent ev r)"
  by (simp add: applyEvents_def)

lemma applyEvents_append: "applyEvents (xs @ ys) r = applyEvents ys (applyEvents xs r)"
  by (simp add: applyEvents_def)

lemma updateQuantities_clean:
  "outcomes w = [] \<Longrightarrow>
     updateQuantities snapshot now items w =
       (True, w\<lparr>remote := applyEvents (inventoryWrites snapshot now items) (remote w),
                trace := trace w @ inventoryWrites snapshot now items\<rparr>)"
proof (induction items arbitrary: w)
  case Nil
  then show ?case by (simp add: inventoryWrites_def applyEvents_Nil)
next
  case (Cons item items)
  show ?case
  proof (cases "find (\<lambda>i. inv_id i = si_itemId item) snapshot")
    case None
    then show ?thesis
      using Cons.IH [OF Cons.prems] by (simp add: inventoryWrites_def)
  next
    case (Some currentItem)
    let ?ev = "UpdateInventory (si_itemId item) (inv_quantity currentItem - si_quantity item) now"
    let ?w' = "w\<lparr>remote := applyEvent ?ev (remote w), trace := trace w @ [?ev]\<rparr>"
    have call: "gateway_call ?ev
        (update_inventory_row (si_itemId item) (inv_quantity currentItem - si_quantity item) now) w
        = (Resolved, ?w')"
      using Cons.prems by (simp add: gateway_call_clean)
    have clean: "outcomes ?w' = []"
      using Cons.prems by simp
    have writes: "inventoryWrites snapshot now (item # items) = ?ev # inventoryWrites snapshot now items"
      using Some by (simp add: inventoryWrites_def)
    show ?thesis
      using Some call Cons.IH [OF clean]
      by (simp add: writes applyEvents_Cons)
  qed
qed

lemma handleCompleteSale_clean:
  "outcomes w = [] \<Longrightarrow>
     handleCompleteSale uuid now items w =
       w\<lparr>inventory := foldl (sellItem now) (inventory w) items,
         sales := newSaleRecord uuid now items # sales w,
         remote := applyEvents (InsertSale (newSaleRecord uuid now items)
                     # inventoryWrites (inventory w) now items) (remote w),
         trace := trace w @ InsertSale (newSaleRecord uuid now items)
                     # inventoryWrites (inventory w) now items\<rparr>"
  by (simp add: handleCompleteSale_def persistSale_def optimisticSale_def gateway_call_clean
      updateQuantities_clean applyEvents_Cons)

subsection \<open>Totals of the sale record\<close>

lemma roundingFree_foldl:
  "roundingFree q p acc items \<Longrightarrow>
     foldl (\<lambda>sum item. fadd sum (fmul (q item) (p item))) acc items
       = acc + (\<Sum>item\<leftarrow>items. q item * p item)"
  by (induction items arbitrary: acc) (simp_all add: fadd_def fmul_def algebra_simps)

lemma roundedTotal_exact:
  "roundingFree q p 0 items \<Longrightarrow> roundedTotal q p items = (\<Sum>item\<leftarrow>items. q item * p item)"
  by (simp add: roundedTotal_def roundingFree_foldl)

text \<open>
  Claim C3, as stated, fails.  For three pieces at the price 0.1 the total amount is
  0.30000000000000004, the double next above the sum of quantity times price.
\<close>

theorem completeSale_totals_counterexample:
  "priceAtSale threeDimes = 3602879701896397 / 36028797018963968 \<and>
   totalAmount (newSaleRecord ''s1'' ''t1'' [threeDimes])
     = 1351079888211149 / 4503599627370496 \<and>
   (\<Sum>item\<leftarrow>[threeDimes]. si_quantity item * priceAtSale item)
     = 10808639105689191 / 36028797018963968 \<and>
   totalAmount (newSaleRecord ''s1'' ''t1'' [threeDimes])
     \<noteq> (\<Sum>item\<leftarrow>[threeDimes]. si_quantity item * priceAtSale item)"
  by code_simp

text \<open>
  Claim C3, amended.  The sale record built by \<^verbatim>\<open>handleCompleteSale\<close> has \<^verbatim>\<open>totalAmount\<close>
  equal to the double-precision sum, taken from the left, of the double-precision
  products of quantity and \<^verbatim>\<open>priceAtSale\<close>, and \<^verbatim>\<open>totalProfit\<close> equal to the
  double-precision difference of \<^verbatim>\<open>totalAmount\<close> and the like sum for \<^verbatim>\<open>costAtSale\<close>.
  Where no product and no running sum needs rounding, \<^verbatim>\<open>totalAmount\<close> is the sum over
  the items of quantity times \<^verbatim>\<open>priceAtSale\<close>; where the difference needs none either,
  \<^verbatim>\<open>totalProfit\<close> is \<^verbatim>\<open>totalAmount\<close> minus the sum of quantity times \<^verbatim>\<open>costAtSale\<close>.
  The record is the one put at the front of the sales.
\<close>

theorem completeSale_totals_rounded:
  "totalAmount (newSaleRecord uuid now items) = roundedTotal si_quantity priceAtSale items \<and>
   totalProfit (newSaleRecord uuid now items)
     = fsub (totalAmount (newSaleRecord uuid now items))
         (roundedTotal si_quantity costAtSale items) \<and>
   (roundingFree si_quantity priceAtSale 0 items \<longrightarrow>
      totalAmount (newSaleRecord uuid now items)
        = (\<Sum>item\<leftarrow>items. si_quantity item * priceAtSale item)) \<and>
   (roundingFree si_quantity priceAtSale 0 items \<and> roundingFree si_quantity costAtSale 0 items \<and>
    fl ((\<Sum>item\<leftarrow>items. si_quantity item * priceAtSale item)
          - (\<Sum>item\<leftarrow>items. si_quantity item * costAtSale item))
      = (\<Sum>item\<leftarrow>items. si_quantity item * priceAtSale item)
          - (\<Sum>item\<leftarrow>items. si_quantity item * costAtSale item) \<longrightarrow>
      totalProfit (newSaleRecord uuid now items)
        = totalAmount (newSaleRecord uuid now items)
            - (\<Sum>item\<leftarrow>items. si_quantity item * costAtSale item)) \<and>
   sales (optimisticSale uuid now items w) = newSaleRecord uuid now items # sales w"
proof -
  have amount: "totalAmount (newSaleRecord uuid now items)
      = roundedTotal si_quantity priceAtSale items"
    by (simp add: newSaleRecord_def roundedTotal_def Let_def)
  have profit: "totalProfit (newSaleRecord uuid now items)
      = fsub (roundedTotal si_quantity priceAtSale items)
          (roundedTotal si_quantity costAtSale items)"
    by (simp add: newSaleRecord_def roundedTotal_def Let_def)
  have front: "sales (optimisticSale uuid now items w) = newSaleRecord uuid now items # sales w"
    by (simp add: optimisticSale_def)
  show ?thesis
    by (simp add: amount profit front roundedTotal_exact fsub_def)
qed

lemma roundingFree_sale:
  "roundingFree si_quantity priceAtSale 0 [sellA 2, sellB 0]"
  "roundingFree si_quantity costAtSale 0 [sellA 2, sellB 0]"
  by code_simp+

lemma exact_difference: "fl (6 - 4) = 6 - 4"
  by code_simp

theorem completeSale_totals_rounded_witness:
  "roundingFree si_quantity priceAtSale 0 [sellA 2, sellB 0] \<and>
   roundingFree si_quantity costAtSale 0 [sellA 2, sellB 0] \<and>
   totalAmount (newSaleRecord ''s1'' ''t1'' [sellA 2, sellB 0]) = 6 \<and>
   totalProfit (newSaleRecord ''s1'' ''t1'' [sellA 2, sellB 0]) = 2 \<and>
   sales (optimisticSale ''s1'' ''t1'' [sellA 2, sellB 0] shop)
     = [newSaleRecord ''s1'' ''t1'' [sellA 2, sellB 0]]"
proof -
  let ?items = "[sellA 2, sellB 0]"
  note totals = completeSale_totals_rounded [of "''s1''" "''t1''" ?items shop]
  have sums: "(\<Sum>item\<leftarrow>?items. si_quantity item * priceAtSale item) = 6"
    "(\<Sum>item\<leftarrow>?items. si_quantity item * costAtSale item) = 4"
    by (simp_all add: sellA_def sellB_def)
  have difference: "fl ((\<Sum>item\<leftarrow>?items. si_quantity item * priceAtSale item)
        - (\<Sum>item\<leftarrow>?items. si_quantity item * costAtSale item))
      = (\<Sum>item\<leftarrow>?items. si_quantity item * priceAtSale item)
        - (\<Sum>item\<leftarrow>?items. si_quantity item * costAtSale item)"
    unfolding sums by (rule exact_difference)
  have amount: "totalAmount (newSaleRecord ''s1'' ''t1'' ?items)
      = (\<Sum>item\<leftarrow>?items. si_quantity item * priceAtSale item)"
    using totals roundingFree_sale(1) by blast
  have profit: "totalProfit (newSaleRecord ''s1'' ''t1'' ?items)
      = totalAmount (newSaleRecord ''s1'' ''t1'' ?items)
        - (\<Sum>item\<leftarrow>?items. si_quantity item * costAtSale item)"
    using totals roundingFree_sale difference by blast
  have front: "sales (optimisticSale ''s1'' ''t1'' ?items shop)
      = newSaleRecord ''s1'' ''t1'' ?items # sales shop"
    using totals by blast
  have amount6: "totalAmount (newSaleRecord ''s1'' ''t1'' ?items) = 6"
    using amount by (simp only: sums)
  have profit2: "totalProfit (newSaleRecord ''s1'' ''t1'' ?items) = 2"
    using profit [unfolded amount6 sums] by simp
  have front1: "sales (optimisticSale ''s1'' ''t1'' ?items shop)
      = [newSaleRecord ''s1'' ''t1'' ?items]"
    using front by (simp add: shop_def)
  show ?thesis
    using roundingFree_sale amount6 profit2 front1 by (simp only: simp_thms)
qed

subsection \<open>Frame of the optimistic update\<close>

text \<open>
  Claim C10.  The optimistic local update of a sale keeps the length and the order of the
  inventory; at every position the id, name, category, cost price, sales price and
  low-stock threshold are those of before (only quantity and \<^verbatim>\<open>lastUpdated\<close> may differ);
  an entry whose id is not among the sale's item ids is unchanged altogether; and the
  expenses and the purchase orders are unchanged.
\<close>

theorem completeSale_frame:
  "length (inventory (optimisticSale uuid now items w)) = length (inventory w) \<and>
   (\<forall>i<length (inventory w).
      sameButStock (inventory w ! i) (inventory (optimisticSale uuid now items w) ! i) \<and>
      (inv_id (inventory w ! i) \<notin> si_itemId ` set items \<longrightarrow>
         inventory (optimisticSale uuid now items w) ! i = inventory w ! i)) \<and>
   expenses (optimisticSale uuid now items w) = expenses w \<and>
   purchaseOrders (optimisticSale uuid now items w) = purchaseOrders w"
  using nth_foldl_sellItem [of _ "inventory w" now items]
  by (simp add: optimisticSale_def length_foldl_sellItem)

theorem completeSale_frame_witness:
  "(1::nat) < length (inventory shop) \<and>
   inv_id (inventory shop ! 1) \<notin> si_itemId ` set [sellA 2] \<and>
   inventory (optimisticSale ''s1'' ''t1'' [sellA 2] shop) ! 1 = itemB \<and>
   sameButStock itemA (inventory (optimisticSale ''s1'' ''t1'' [sellA 2] shop) ! 0) \<and>
   length (inventory (optimisticSale ''s1'' ''t1'' [sellA 2] shop)) = 2"
  using completeSale_frame [of "''s1''" "''t1''" "[sellA 2]" shop]
  by (simp add: shop_def sellA_def itemA_def itemB_def optimisticSale_def sellItem_def
      sameButStock_def)

subsection \<open>The remote phase\<close>

lemma inventoryWrites_found:
  "inventoryWrites snapshot now items =
     map (\<lambda>item. UpdateInventory (si_itemId item)
            (the (quantityOf (si_itemId item) snapshot) - si_quantity item) now)
       (filter (\<lambda>item. quantityOf (si_itemId item) snapshot \<noteq> None) items)"
  by (induction items) (auto simp: inventoryWrites_def quantityOf_def)

text \<open>
  Claim C4, as stated, fails.  A sale of the one item C, which the inventory does not
  hold, inserts the sale record and sends no quantity update at all.
\<close>

theorem completeSale_remote_phase_counterexample:
  "quantityOf (si_itemId itemC) (inventory shop) = None \<and>
   trace (handleCompleteSale ''s1'' ''t1'' [itemC] shop)
     = [InsertSale (newSaleRecord ''s1'' ''t1'' [itemC])]"
  by (simp add: handleCompleteSale_def persistSale_def optimisticSale_def gateway_call_def
      shop_def itemA_def itemB_def itemC_def quantityOf_def sellItem_def insert_sale_row_def)

text \<open>
  Claim C4, amended.  For a sale whose item ids are pairwise distinct, in a run in which
  every gateway call resolves cleanly, the handler first inserts the sale record and then
  sends, in item order, exactly one quantity update for each sale item whose id an entry
  of the captured inventory carries, and none for the other items; the quantity written
  for an item is the quantity that the inventory captured before the optimistic update
  holds for its id, minus the quantity of that item.
\<close>

theorem completeSale_remote_writes:
  assumes "outcomes w = []" and "distinct (map si_itemId items)"
  shows "trace (handleCompleteSale uuid now items w) =
           trace w @ InsertSale (newSaleRecord uuid now items)
             # map (\<lambda>item. UpdateInventory (si_itemId item)
                     (the (quantityOf (si_itemId item) (inventory w)) - si_quantity item) now)
                 (filter (\<lambda>item. quantityOf (si_itemId item) (inventory w) \<noteq> None) items)"
  using assms(1) by (simp add: handleCompleteSale_clean inventoryWrites_found)

theorem completeSale_remote_writes_witness:
  "outcomes shop = [] \<and> distinct (map si_itemId [sellA 2, itemC, sellB 1]) \<and>
   quantityOf ''A'' (inventory shop) = Some 10 \<and> quantityOf ''B'' (inventory shop) = Some 4 \<and>
   quantityOf ''C'' (inventory shop) = None \<and>
   trace (handleCompleteSale ''s1'' ''t1'' [sellA 2, itemC, sellB 1] shop) =
     [InsertSale (newSaleRecord ''s1'' ''t1'' [sellA 2, itemC, sellB 1]),
      UpdateInventory ''A'' 8 ''t1'', UpdateInventory ''B'' 3 ''t1'']"
proof -
  have h1: "outcomes shop = []"
    by (simp add: shop_def)
  have h2: "distinct (map si_itemId [sellA 2, itemC, sellB 1])"
    by (simp add: sellA_def sellB_def itemC_def)
  show ?thesis
    using h1 h2 completeSale_remote_writes [OF h1 h2, of "''s1''" "''t1''"]
    by (simp add: shop_def quantityOf_def sellA_def sellB_def itemC_def itemA_def itemB_def)
qed

subsection \<open>A sale item without an inventory entry\<close>

lemma map_inv_id_updateFirst:
  "(\<And>p. inv_id (f p) = inv_id p) \<Longrightarrow> map inv_id (updateFirst k f ps) = map inv_id ps"
  by (induction ps) auto

lemma map_inv_id_sellItem: "map inv_id (sellItem now ps saleItem) = map inv_id ps"
  by (simp add: sellItem_updateFirst map_inv_id_updateFirst sold_def)

lemma map_inv_id_foldl_sellItem: "map inv_id (foldl (sellItem now) ps items) = map inv_id ps"
  by (induction items arbitrary: ps) (simp_all add: map_inv_id_sellItem)

lemma sellItem_absent: "si_itemId saleItem \<notin> inv_id ` set ps \<Longrightarrow> sellItem now ps saleItem = ps"
proof -
  assume "si_itemId saleItem \<notin> inv_id ` set ps"
  then have "\<not> (\<exists>p\<in>set ps. inv_id p = si_itemId saleItem)"
    by force
  then have "\<not> findIndex (\<lambda>p. inv_id p = si_itemId saleItem) ps > -1"
    using findIndex_found [of "\<lambda>p. inv_id p = si_itemId saleItem" ps] by blast
  then show ?thesis
    by (simp add: sellItem_def Let_def)
qed

lemma foldl_sellItem_absent:
  assumes "si_itemId x \<notin> inv_id ` set ps"
  shows "foldl (sellItem now) ps (xs @ x # ys) = foldl (sellItem now) ps (xs @ ys)"
proof -
  have "si_itemId x \<notin> inv_id ` set (foldl (sellItem now) ps xs)"
    using assms map_inv_id_foldl_sellItem [of now ps xs] by (metis (no_types) set_map)
  then show ?thesis
    by (simp add: sellItem_absent)
qed


lemma find_absent: "k \<notin> inv_id ` set ps \<Longrightarrow> find (\<lambda>i. inv_id i = k) ps = None"
  by (induction ps) auto

lemma inventoryWrites_append:
  "inventoryWrites snapshot now (xs @ ys)
     = inventoryWrites snapshot now xs @ inventoryWrites snapshot now ys"
  by (simp add: inventoryWrites_def)

lemma inventoryWrites_absent:
  "si_itemId x \<notin> inv_id ` set snapshot \<Longrightarrow>
     inventoryWrites snapshot now (xs @ x # ys) = inventoryWrites snapshot now (xs @ ys)"
  by (simp add: inventoryWrites_def find_absent)

lemma notices_append: "notices (xs @ ys) = notices xs @ notices ys"
  by (induction xs rule: notices.induct) simp_all

lemma notices_inventoryWrites: "notices (inventoryWrites snapshot now items) = []"
  by (induction items) (simp_all add: inventoryWrites_def split: option.split)

lemma inventory_rows_applyEvent_ids:
  "map inv_id (inventory_rows (applyEvent ev r)) = map inv_id (inventory_rows r)"
  by (cases ev) (simp_all add: insert_sale_row_def insert_po_row_def update_inventory_row_def
      update_po_status_row_def comp_def)

lemma inventory_rows_applyEvents_ids:
  "map inv_id (inventory_rows (applyEvents evs r)) = map inv_id (inventory_rows r)"
  by (induction evs arbitrary: r) (simp_all add: applyEvents_Nil applyEvents_Cons inventory_rows_applyEvent_ids)

lemma inventory_rows_insert_sale: "inventory_rows (insert_sale_row s r) = inventory_rows r"
  by (simp add: insert_sale_row_def)

lemma inventory_rows_applyEvents_cong:
  "inventory_rows r = inventory_rows r' \<Longrightarrow>
     inventory_rows (applyEvents (inventoryWrites snapshot now items) r)
       = inventory_rows (applyEvents (inventoryWrites snapshot now items) r')"
proof (induction items arbitrary: r r')
  case Nil
  then show ?case by (simp add: inventoryWrites_def applyEvents_Nil)
next
  case (Cons item items)
  show ?case
  proof (cases "find (\<lambda>i. inv_id i = si_itemId item) snapshot")
    case None
    then have "inventoryWrites snapshot now (item # items) = inventoryWrites snapshot now items"
      by (simp add: inventoryWrites_def)
    then show ?thesis using Cons.IH [OF Cons.prems] by (simp only:)
  next
    case (Some c)
    let ?ev = "UpdateInventory (si_itemId item) (inv_quantity c - si_quantity item) now"
    have w: "inventoryWrites snapshot now (item # items) = ?ev # inventoryWrites snapshot now items"
      using Some by (simp add: inventoryWrites_def)
    have "inventory_rows (applyEvent ?ev r) = inventory_rows (applyEvent ?ev r')"
      using Cons.prems by (simp add: update_inventory_row_def)
    then have "inventory_rows (applyEvents (inventoryWrites snapshot now items) (applyEvent ?ev r))
        = inventory_rows (applyEvents (inventoryWrites snapshot now items) (applyEvent ?ev r'))"
      by (rule Cons.IH)
    then show ?thesis
      by (simp only: w applyEvents_Cons)
  qed
qed

text \<open>
  Claim C7.  Let a sale contain an item whose id no inventory entry carries, in a run in
  which every gateway call resolves cleanly.  Then the handler ends without a notice (no
  exception reached its \<^verbatim>\<open>catch\<close> block, whose effect is a notice and a re-fetch): the
  trace gains the insert of the sale and the quantity updates of the other items only.
  No inventory entry is created, locally or in the store, and the inventory, local and
  remote, ends as it does for the same sale without that item.
\<close>

theorem completeSale_absent_item:
  assumes "outcomes w = []" and "si_itemId x \<notin> inv_id ` set (inventory w)"
  shows "map inv_id (inventory (handleCompleteSale uuid now (xs @ x # ys) w))
           = map inv_id (inventory w) \<and>
         map inv_id (inventory_rows (remote (handleCompleteSale uuid now (xs @ x # ys) w)))
           = map inv_id (inventory_rows (remote w)) \<and>
         inventory (handleCompleteSale uuid now (xs @ x # ys) w)
           = inventory (handleCompleteSale uuid now (xs @ ys) w) \<and>
         inventory_rows (remote (handleCompleteSale uuid now (xs @ x # ys) w))
           = inventory_rows (remote (handleCompleteSale uuid now (xs @ ys) w)) \<and>
         trace (handleCompleteSale uuid now (xs @ x # ys) w)
           = trace w @ InsertSale (newSaleRecord uuid now (xs @ x # ys))
               # inventoryWrites (inventory w) now (xs @ ys) \<and>
         notices (trace (handleCompleteSale uuid now (xs @ x # ys) w)) = notices (trace w)"
proof -
  have local: "foldl (sellItem now) (inventory w) (xs @ x # ys)
      = foldl (sellItem now) (inventory w) (xs @ ys)"
    using assms(2) by (rule foldl_sellItem_absent)
  have writes: "inventoryWrites (inventory w) now (xs @ x # ys)
      = inventoryWrites (inventory w) now (xs @ ys)"
    using assms(2) by (rule inventoryWrites_absent)
  have rows: "inventory_rows (applyEvents (inventoryWrites (inventory w) now (xs @ ys))
        (insert_sale_row (newSaleRecord uuid now (xs @ x # ys)) (remote w)))
      = inventory_rows (applyEvents (inventoryWrites (inventory w) now (xs @ ys))
        (insert_sale_row (newSaleRecord uuid now (xs @ ys)) (remote w)))"
    by (rule inventory_rows_applyEvents_cong) (simp add: inventory_rows_insert_sale)
  show ?thesis
    using local writes rows
    by (simp add: handleCompleteSale_clean [OF assms(1)] map_inv_id_foldl_sellItem
        inventory_rows_applyEvents_ids inventory_rows_insert_sale applyEvents_Cons
        notices_append notices_inventoryWrites del: foldl_append)
qed

theorem completeSale_absent_item_witness:
  "outcomes shop = [] \<and> si_itemId itemC \<notin> inv_id ` set (inventory shop) \<and>
   map inv_id (inventory (handleCompleteSale ''s1'' ''t1'' ([sellA 2] @ itemC # [sellB 1]) shop))
     = [''A'', ''B''] \<and>
   trace (handleCompleteSale ''s1'' ''t1'' ([sellA 2] @ itemC # [sellB 1]) shop)
     = [InsertSale (newSaleRecord ''s1'' ''t1'' [sellA 2, itemC, sellB 1]),
        UpdateInventory ''A'' 8 ''t1'', UpdateInventory ''B'' 3 ''t1''] \<and>
   notices (trace (handleCompleteSale ''s1'' ''t1'' ([sellA 2] @ itemC # [sellB 1]) shop)) = []"
proof -
  have h1: "outcomes shop = []"
    by (simp add: shop_def)
  have h2: "si_itemId itemC \<notin> inv_id ` set (inventory shop)"
    by (simp add: shop_def itemC_def itemA_def itemB_def)
  show ?thesis
    using h1 h2 completeSale_absent_item [OF h1 h2, of "''s1''" "''t1''" "[sellA 2]" "[sellB 1]"]
    by (simp add: shop_def inventoryWrites_def sellA_def sellB_def itemA_def itemB_def itemC_def
        handleCompleteSale_def persistSale_def optimisticSale_def gateway_call_def sellItem_def
        update_inventory_row_def insert_sale_row_def)
qed

subsection \<open>Repeated item ids, and failed quantity updates\<close>

lemma fetchData_clean:
  "outcomes w = [] \<Longrightarrow> session w \<Longrightarrow>
     fetchData w =
       w\<lparr>inventory := inventory_rows (remote w), sales := sales_rows (remote w),
         expenses := expenses_rows (remote w),
         purchaseOrders := purchase_orders_rows (remote w),
         trace := trace w @ [Select inventory_t, Select sales_t, Select expenses_t,
                             Select purchase_orders_t]\<rparr>"
  by (simp add: fetchData_def gateway_call_clean)

lemma completeSale_insert_failure:
  assumes "outcomes w = [oc]" and "oc \<noteq> Resolved" and "session w"
  shows "handleCompleteSale uuid now items w =
           w\<lparr>inventory := inventory_rows (remote w), sales := sales_rows (remote w),
             expenses := expenses_rows (remote w),
             purchaseOrders := purchase_orders_rows (remote w),
             outcomes := [],
             trace := trace w @ [InsertSale (newSaleRecord uuid now items),
                       Alert ''Error saving sale to database. Please check connection.'',
                       Select inventory_t, Select sales_t, Select expenses_t,
                       Select purchase_orders_t]\<rparr>"
  using assms
  by (simp add: handleCompleteSale_def persistSale_def optimisticSale_def gateway_call_def
      on_error_def fetchData_clean)

text \<open>
  What the store holds after a sale in which every gateway call resolves cleanly: each
  write is computed from the captured inventory, so for an id the last write stands.
  When no id is repeated in the sale and the store held the captured inventory, store
  and local inventory agree on every quantity.
\<close>

lemma quantityOf_update_rows:
  "quantityOf k (map (\<lambda>row. if inv_id row = j then row\<lparr>inv_quantity := q, lastUpdated := t\<rparr> else row) rows)
     = (if k = j then map_option (\<lambda>_. q) (quantityOf k rows) else quantityOf k rows)"
  by (induction rows) (auto simp: quantityOf_def)

lemma quantityOf_update_inventory_row:
  "quantityOf k (inventory_rows (update_inventory_row j q t r))
     = (if k = j then map_option (\<lambda>_. q) (quantityOf k (inventory_rows r))
        else quantityOf k (inventory_rows r))"
  by (simp add: update_inventory_row_def quantityOf_update_rows)

lemma lastSold_snoc:
  "lastSold k (items @ [x]) = (if si_itemId x = k then Some (si_quantity x) else lastSold k items)"
  by (simp add: lastSold_def)

lemma inventoryWrites_snoc:
  "inventoryWrites snapshot now (items @ [x]) =
     inventoryWrites snapshot now items @
       (case find (\<lambda>i. inv_id i = si_itemId x) snapshot of
          None \<Rightarrow> []
        | Some c \<Rightarrow> [UpdateInventory (si_itemId x) (inv_quantity c - si_quantity x) now])"
  by (simp add: inventoryWrites_def)

lemma store_after_writes:
  "quantityOf k (inventory_rows (applyEvents (inventoryWrites snapshot now items) r))
     = storeQuantity (quantityOf k (inventory_rows r)) (quantityOf k snapshot) (lastSold k items)"
proof (induction items rule: rev_induct)
  case Nil
  show ?case
    by (simp add: inventoryWrites_def applyEvents_Nil lastSold_def storeQuantity_def
        split: option.split)
next
  case (snoc x items)
  show ?case
  proof (cases "find (\<lambda>i. inv_id i = si_itemId x) snapshot")
    case None
    then have "si_itemId x = k \<Longrightarrow> quantityOf k snapshot = None"
      by (auto simp: quantityOf_def)
    then show ?thesis
      using None snoc.IH
      by (auto simp: inventoryWrites_snoc lastSold_snoc storeQuantity_def split: option.split)
  next
    case (Some c)
    then have "si_itemId x = k \<Longrightarrow> quantityOf k snapshot = Some (inv_quantity c)"
      by (auto simp: quantityOf_def)
    then show ?thesis
      using Some snoc.IH
      by (auto simp: inventoryWrites_snoc lastSold_snoc storeQuantity_def applyEvents_append
          applyEvents_Cons applyEvents_Nil quantityOf_update_inventory_row option.map_comp comp_def
          split: option.split)
  qed
qed

lemma completeSale_store_quantity:
  assumes "outcomes w = []"
  shows "quantityOf k (inventory_rows (remote (handleCompleteSale uuid now items w)))
     = storeQuantity (quantityOf k (inventory_rows (remote w))) (quantityOf k (inventory w))
         (lastSold k items)"
proof -
  have "inventory_rows (applyEvents (inventoryWrites (inventory w) now items)
          (insert_sale_row (newSaleRecord uuid now items) (remote w)))
      = inventory_rows (applyEvents (inventoryWrites (inventory w) now items) (remote w))"
    by (rule inventory_rows_applyEvents_cong) (simp add: inventory_rows_insert_sale)
  then show ?thesis
    by (simp add: handleCompleteSale_clean [OF assms] applyEvents_Cons store_after_writes)
qed

lemma filter_distinct_ids:
  "distinct (map si_itemId items) \<Longrightarrow>
     filter (\<lambda>saleItem. si_itemId saleItem = k) items = [] \<or>
     (\<exists>x. filter (\<lambda>saleItem. si_itemId saleItem = k) items = [x])"
proof (induction items)
  case Nil
  then show ?case by simp
next
  case (Cons a items)
  show ?case
  proof (cases "si_itemId a = k")
    case True
    then have "k \<notin> si_itemId ` set items"
      using Cons.prems by auto
    then have "filter (\<lambda>saleItem. si_itemId saleItem = k) items = []"
      by (auto simp: filter_empty_conv)
    then show ?thesis using True by simp
  next
    case False
    then show ?thesis using Cons by simp
  qed
qed

lemma completeSale_agree_distinct:
  assumes "outcomes w = []" and "distinct (map si_itemId items)"
    and "inventory_rows (remote w) = inventory w"
  shows "quantityOf k (inventory_rows (remote (handleCompleteSale uuid now items w)))
       = quantityOf k (inventory (handleCompleteSale uuid now items w))"
proof -
  have local: "quantityOf k (inventory (handleCompleteSale uuid now items w))
      = map_option (\<lambda>q. q - soldTotal k items) (quantityOf k (inventory w))"
    by (simp add: handleCompleteSale_clean [OF assms(1)] quantityOf_foldl_sellItem)
  from filter_distinct_ids [OF assms(2), of k]
  show ?thesis
  proof
    assume "filter (\<lambda>saleItem. si_itemId saleItem = k) items = []"
    then show ?thesis
      by (simp add: local completeSale_store_quantity [OF assms(1)] assms(3) lastSold_def
          soldTotal_def storeQuantity_def option.map_ident split: option.split)
  next
    assume "\<exists>x. filter (\<lambda>saleItem. si_itemId saleItem = k) items = [x]"
    then obtain x where "filter (\<lambda>saleItem. si_itemId saleItem = k) items = [x]" ..
    then show ?thesis
      by (auto simp: local completeSale_store_quantity [OF assms(1)] assms(3) lastSold_def
          soldTotal_def storeQuantity_def split: option.split)
  qed
qed

text \<open>
  Claim C1, evaluated where it fails.  The shop holds 10 of product A, locally and in
  the store.  A sale lists A twice, with quantities 2 and 3, and every gateway call
  resolves cleanly.  The local quantity falls by the total 5, to 5; the store is written
  8 and then 7, each computed from the captured quantity 10, and ends at 7.
\<close>

theorem completeSale_repeated_item_diverges:
  "quantityOf ''A'' (inventory shop) = Some 10 \<and>
   quantityOf ''A'' (inventory_rows (remote shop)) = Some 10 \<and>
   soldTotal ''A'' [sellA 2, sellA 3] = 5 \<and>
   quantityOf ''A'' (inventory (handleCompleteSale ''s1'' ''t1'' [sellA 2, sellA 3] shop)) = Some 5 \<and>
   quantityOf ''A'' (inventory_rows (remote (handleCompleteSale ''s1'' ''t1'' [sellA 2, sellA 3] shop)))
     = Some 7 \<and>
   trace (handleCompleteSale ''s1'' ''t1'' [sellA 2, sellA 3] shop)
     = [InsertSale (newSaleRecord ''s1'' ''t1'' [sellA 2, sellA 3]),
        UpdateInventory ''A'' 8 ''t1'', UpdateInventory ''A'' 7 ''t1'']"
  by (simp add: handleCompleteSale_def persistSale_def optimisticSale_def gateway_call_def
      shop_def itemA_def itemB_def sellA_def quantityOf_def soldTotal_def sellItem_def
      update_inventory_row_def insert_sale_row_def)

text \<open>
  Claim C2, evaluated where it fails.  The insert of the sale resolves cleanly and the
  quantity update for A resolves with an error.  The handler goes on to send the update
  for B, gives no notice and does not re-fetch: the local quantity of A stays at the
  optimistic 8 while the store still holds 10.
\<close>

theorem completeSale_failed_update_ignored:
  "trace (handleCompleteSale ''s1'' ''t1'' [sellA 2, sellB 1]
            (shop\<lparr>outcomes := [Resolved, ResolvedError]\<rparr>))
     = [InsertSale (newSaleRecord ''s1'' ''t1'' [sellA 2, sellB 1]),
        UpdateInventory ''A'' 8 ''t1'', UpdateInventory ''B'' 3 ''t1''] \<and>
   quantityOf ''A'' (inventory (handleCompleteSale ''s1'' ''t1'' [sellA 2, sellB 1]
            (shop\<lparr>outcomes := [Resolved, ResolvedError]\<rparr>))) = Some 8 \<and>
   quantityOf ''A'' (inventory_rows (remote (handleCompleteSale ''s1'' ''t1'' [sellA 2, sellB 1]
            (shop\<lparr>outcomes := [Resolved, ResolvedError]\<rparr>)))) = Some 10"
  by (simp add: handleCompleteSale_def persistSale_def optimisticSale_def gateway_call_def
      shop_def itemA_def itemB_def sellA_def sellB_def quantityOf_def sellItem_def
      update_inventory_row_def insert_sale_row_def)

text \<open>
  For comparison, a quantity update that rejects: the loop is left, the notice is given
  and the four collections are read again, so the local inventory is the store's.  The
  sale stays inserted and no later write is sent.
\<close>

lemma completeSale_rejected_update:
  "trace (handleCompleteSale ''s1'' ''t1'' [sellA 2, sellB 1]
            (shop\<lparr>outcomes := [Resolved, Rejected]\<rparr>))
     = [InsertSale (newSaleRecord ''s1'' ''t1'' [sellA 2, sellB 1]),
        UpdateInventory ''A'' 8 ''t1'',
        Alert ''Error saving sale to database. Please check connection.'',
        Select inventory_t, Select sales_t, Select expenses_t, Select purchase_orders_t] \<and>
   inventory (handleCompleteSale ''s1'' ''t1'' [sellA 2, sellB 1]
            (shop\<lparr>outcomes := [Resolved, Rejected]\<rparr>)) = [itemA, itemB] \<and>
   sales (handleCompleteSale ''s1'' ''t1'' [sellA 2, sellB 1]
            (shop\<lparr>outcomes := [Resolved, Rejected]\<rparr>))
     = [newSaleRecord ''s1'' ''t1'' [sellA 2, sellB 1]]"
  by (simp add: handleCompleteSale_def persistSale_def optimisticSale_def gateway_call_def
      on_error_def fetchData_def shop_def itemA_def itemB_def sellA_def sellB_def sellItem_def
      update_inventory_row_def insert_sale_row_def)

section \<open>Properties of the purchase-order handlers\<close>

subsection \<open>Receiving an order\<close>

lemma restock_absent:
  "\<not> findIndex (\<lambda>i. inv_id i = poi_itemId item) ps > -1 \<Longrightarrow> restock now ps item = ps"
  by (simp add: restock_def updateFirst_absent)

lemma receiveItems_clean:
  "outcomes w = [] \<Longrightarrow>
     receiveItems now items ps w =
       (Some (foldl (restock now) ps items),
        w\<lparr>remote := applyEvents (receiptWrites now ps items) (remote w),
          trace := trace w @ receiptWrites now ps items\<rparr>)"
proof (induction items arbitrary: ps w)
  case Nil
  then show ?case by (simp add: applyEvents_Nil)
next
  case (Cons item rest)
  let ?P = "\<lambda>i. inv_id i = poi_itemId item"
  show ?case
  proof (cases "findIndex ?P ps > -1")
    case False
    then have none: "find ?P ps = None"
      by (simp add: findIndex_find)
    show ?thesis
      using False none Cons.IH [OF Cons.prems, of ps]
      by (simp add: restock_absent)
  next
    case True
    let ?c = "ps ! nat (findIndex ?P ps)"
    let ?ev = "UpdateInventory (poi_itemId item) (inv_quantity ?c + poi_quantity item) now"
    let ?w' = "w\<lparr>remote := applyEvent ?ev (remote w), trace := trace w @ [?ev]\<rparr>"
    have some: "find ?P ps = Some ?c"
      using True by (simp add: findIndex_find)
    have upd: "ps[nat (findIndex ?P ps) := ?c\<lparr>inv_quantity := inv_quantity ?c + poi_quantity item,
                  lastUpdated := now\<rparr>] = restock now ps item"
      using findIndex_update [OF True, of "restocked now item"]
      by (simp add: restock_def restocked_def)
    have call: "gateway_call ?ev
        (update_inventory_row (poi_itemId item) (inv_quantity ?c + poi_quantity item) now) w
        = (Resolved, ?w')"
      using Cons.prems by (simp add: gateway_call_clean)
    have clean: "outcomes ?w' = []"
      using Cons.prems by simp
    show ?thesis
      using True some call Cons.IH [OF clean, of "restock now ps item"]
      by (simp add: upd applyEvents_Cons Let_def)
  qed
qed

lemma handleUpdatePOStatus_clean:
  assumes "outcomes w = []" and "find (\<lambda>p. po_id p = pid) (purchaseOrders w) = Some po"
  shows "handleUpdatePOStatus now pid st w =
    (if as_status st = received \<and> status po \<noteq> received
     then w\<lparr>purchaseOrders := setStatus pid (as_status st) (purchaseOrders w),
            inventory := foldl (restock now) (inventory w) (po_items po),
            remote := applyEvents (UpdatePOStatus pid (as_status st)
                        # receiptWrites now (inventory w) (po_items po)) (remote w),
            trace := trace w @ UpdatePOStatus pid (as_status st)
                        # receiptWrites now (inventory w) (po_items po)\<rparr>
     else w\<lparr>purchaseOrders := setStatus pid (as_status st) (purchaseOrders w),
            remote := update_po_status_row pid (as_status st) (remote w),
            trace := trace w @ [UpdatePOStatus pid (as_status st)]\<rparr>)"
  using assms
  by (simp add: handleUpdatePOStatus_def gateway_call_clean receiveItems_clean setStatus_def
      applyEvents_Cons)

lemma quantityOf_restock:
  "quantityOf k (restock now ps item) =
     (if poi_itemId item = k then map_option (\<lambda>q. q + poi_quantity item) (quantityOf k ps)
      else quantityOf k ps)"
  by (auto simp: quantityOf_def restock_def find_updateFirst restocked_def option.map_comp comp_def)

lemma quantityOf_foldl_restock:
  "quantityOf k (foldl (restock now) ps items) =
     map_option (\<lambda>q. q + orderedTotal k items) (quantityOf k ps)"
proof (induction items arbitrary: ps)
  case Nil
  show ?case by (simp add: orderedTotal_def option.map_ident)
next
  case (Cons a items)
  show ?case
    by (simp add: Cons.IH quantityOf_restock orderedTotal_def option.map_comp comp_def algebra_simps)
qed

lemma find_setStatus:
  "find (\<lambda>p. po_id p = pid) (setStatus pid s pos)
     = map_option (\<lambda>p. p\<lparr>status := s\<rparr>) (find (\<lambda>p. po_id p = pid) pos)"
  by (induction pos) (simp_all add: setStatus_def)

lemma handleUpdatePOStatus_outcomes:
  assumes "outcomes w = []"
  shows "outcomes (handleUpdatePOStatus now pid st w) = []"
proof (cases "find (\<lambda>p. po_id p = pid) (purchaseOrders w)")
  case None
  then show ?thesis using assms by (simp add: handleUpdatePOStatus_def)
next
  case (Some po)
  show ?thesis
    using assms by (simp add: handleUpdatePOStatus_clean [OF assms Some])
qed

text \<open>
  Claim C5.  Let the order found under the id be in state \<^verbatim>\<open>ordered\<close>, in a run in which
  every gateway call resolves cleanly.  Marking it received raises the quantity of the
  inventory entry of every id by the quantities the order lists for that id, and leaves
  the order in state \<^verbatim>\<open>received\<close>.  Marking it received a second time changes neither the
  local inventory nor the inventory rows of the store, and the order stays received.
\<close>

theorem receive_once:
  assumes "outcomes w = []"
    and "find (\<lambda>p. po_id p = pid) (purchaseOrders w) = Some po"
    and "status po = ordered"
  shows "quantityOf k (inventory (handleUpdatePOStatus now pid to_received w))
           = map_option (\<lambda>q. q + orderedTotal k (po_items po)) (quantityOf k (inventory w)) \<and>
         find (\<lambda>p. po_id p = pid) (purchaseOrders (handleUpdatePOStatus now pid to_received w))
           = Some (po\<lparr>status := received\<rparr>) \<and>
         inventory (handleUpdatePOStatus now' pid to_received
                      (handleUpdatePOStatus now pid to_received w))
           = inventory (handleUpdatePOStatus now pid to_received w) \<and>
         inventory_rows (remote (handleUpdatePOStatus now' pid to_received
                      (handleUpdatePOStatus now pid to_received w)))
           = inventory_rows (remote (handleUpdatePOStatus now pid to_received w)) \<and>
         find (\<lambda>p. po_id p = pid) (purchaseOrders (handleUpdatePOStatus now' pid to_received
                      (handleUpdatePOStatus now pid to_received w)))
           = Some (po\<lparr>status := received\<rparr>)"
proof -
  let ?w1 = "handleUpdatePOStatus now pid to_received w"
  have first: "?w1 =
      w\<lparr>purchaseOrders := setStatus pid received (purchaseOrders w),
        inventory := foldl (restock now) (inventory w) (po_items po),
        remote := applyEvents (UpdatePOStatus pid received
                    # receiptWrites now (inventory w) (po_items po)) (remote w),
        trace := trace w @ UpdatePOStatus pid received
                    # receiptWrites now (inventory w) (po_items po)\<rparr>"
    using assms(3) by (simp add: handleUpdatePOStatus_clean [OF assms(1,2)])
  have clean1: "outcomes ?w1 = []"
    using assms(1) by (rule handleUpdatePOStatus_outcomes)
  have found1: "find (\<lambda>p. po_id p = pid) (purchaseOrders ?w1) = Some (po\<lparr>status := received\<rparr>)"
    by (simp add: first find_setStatus assms(2))
  have second: "handleUpdatePOStatus now' pid to_received ?w1 =
      ?w1\<lparr>purchaseOrders := setStatus pid received (purchaseOrders ?w1),
          remote := update_po_status_row pid received (remote ?w1),
          trace := trace ?w1 @ [UpdatePOStatus pid received]\<rparr>"
    by (simp add: handleUpdatePOStatus_clean [OF clean1 found1])
  have q: "quantityOf k (inventory ?w1)
      = map_option (\<lambda>q. q + orderedTotal k (po_items po)) (quantityOf k (inventory w))"
    by (simp add: first quantityOf_foldl_restock)
  have inv2: "inventory (handleUpdatePOStatus now' pid to_received ?w1) = inventory ?w1"
    by (simp add: second)
  have rows2: "inventory_rows (remote (handleUpdatePOStatus now' pid to_received ?w1))
      = inventory_rows (remote ?w1)"
    by (simp add: second update_po_status_row_def)
  have found2: "find (\<lambda>p. po_id p = pid)
      (purchaseOrders (handleUpdatePOStatus now' pid to_received ?w1))
      = Some (po\<lparr>status := received\<rparr>)"
    using found1 by (simp add: second find_setStatus)
  show ?thesis
    using q found1 inv2 rows2 found2 by (simp only: simp_thms)
qed

theorem receive_once_witness:
  "outcomes (shopWithOrder ordered) = [] \<and>
   find (\<lambda>p. po_id p = ''po1'') (purchaseOrders (shopWithOrder ordered)) = Some orderA5 \<and>
   status orderA5 = ordered \<and>
   quantityOf ''A'' (inventory (shopWithOrder ordered)) = Some 10 \<and>
   quantityOf ''A'' (inventory (handleUpdatePOStatus ''t1'' ''po1'' to_received
      (shopWithOrder ordered))) = Some 15 \<and>
   map status (purchaseOrders (handleUpdatePOStatus ''t1'' ''po1'' to_received
      (shopWithOrder ordered))) = [received] \<and>
   quantityOf ''A'' (inventory (handleUpdatePOStatus ''t2'' ''po1'' to_received
      (handleUpdatePOStatus ''t1'' ''po1'' to_received (shopWithOrder ordered)))) = Some 15"
proof -
  have h1: "outcomes (shopWithOrder ordered) = []"
    by (simp add: shopWithOrder_def shop_def)
  have h2: "find (\<lambda>p. po_id p = ''po1'') (purchaseOrders (shopWithOrder ordered)) = Some orderA5"
    by (simp add: shopWithOrder_def shop_def orderA5_def)
  have h3: "status orderA5 = ordered"
    by (simp add: orderA5_def)
  have q0: "quantityOf ''A'' (inventory (shopWithOrder ordered)) = Some 10"
    by (simp add: shopWithOrder_def shop_def quantityOf_def itemA_def)
  have tot: "orderedTotal ''A'' (po_items orderA5) = 5"
    by (simp add: orderedTotal_def orderA5_def)
  note r = receive_once [OF h1 h2 h3, of "''A''" "''t1''" "''t2''"]
  have q1: "quantityOf ''A'' (inventory (handleUpdatePOStatus ''t1'' ''po1'' to_received
      (shopWithOrder ordered))) = Some 15"
    using r by (simp add: q0 tot)
  have st: "map status (purchaseOrders (handleUpdatePOStatus ''t1'' ''po1'' to_received
      (shopWithOrder ordered))) = [received]"
    by (simp add: handleUpdatePOStatus_def gateway_call_def shopWithOrder_def shop_def
        orderA5_def receiveItems.simps itemA_def itemB_def Let_def)
  have q2: "quantityOf ''A'' (inventory (handleUpdatePOStatus ''t2'' ''po1'' to_received
      (handleUpdatePOStatus ''t1'' ''po1'' to_received (shopWithOrder ordered)))) = Some 15"
    using r q1 by simp
  show ?thesis
    using h1 h2 h3 q0 q1 st q2 by (simp only: simp_thms)
qed

subsection \<open>The status of an order\<close>

text \<open>
  Claim C6, as stated, fails: an order already received is moved to \<^verbatim>\<open>cancelled\<close> by a
  further call of the handler, locally and in the store.
\<close>

theorem terminal_status_counterexample:
  "map status (purchaseOrders (shopWithOrder received)) = [received] \<and>
   map status (purchaseOrders (handleUpdatePOStatus ''t2'' ''po1'' to_cancelled
      (shopWithOrder received))) = [cancelled] \<and>
   map status (purchase_orders_rows (remote (handleUpdatePOStatus ''t2'' ''po1'' to_cancelled
      (shopWithOrder received)))) = [cancelled]"
  by (simp add: handleUpdatePOStatus_def gateway_call_def shopWithOrder_def shop_def
      orderA5_def update_po_status_row_def)

text \<open>
  Claim C6, amended.  In a run in which every gateway call resolves cleanly, the handler
  called for an order it finds leaves every order of that id in the requested status,
  whatever the status was; the requested status is \<^verbatim>\<open>received\<close> or \<^verbatim>\<open>cancelled\<close>, never
  \<^verbatim>\<open>ordered\<close>; and for an order in that status the purchase-order screen offers no
  further status action.
\<close>

theorem status_set_unconditionally:
  assumes "outcomes w = []" and "find (\<lambda>p. po_id p = pid) (purchaseOrders w) = Some po"
  shows "purchaseOrders (handleUpdatePOStatus now pid st w)
           = setStatus pid (as_status st) (purchaseOrders w) \<and>
         find (\<lambda>p. po_id p = pid) (purchaseOrders (handleUpdatePOStatus now pid st w))
           = Some (po\<lparr>status := as_status st\<rparr>) \<and>
         as_status st \<noteq> ordered \<and>
         statusActions (po\<lparr>status := as_status st\<rparr>) = []"
proof -
  have "purchaseOrders (handleUpdatePOStatus now pid st w)
      = setStatus pid (as_status st) (purchaseOrders w)"
    by (simp add: handleUpdatePOStatus_clean [OF assms])
  moreover have "as_status st \<noteq> ordered"
    by (cases st) simp_all
  ultimately show ?thesis
    by (simp add: find_setStatus assms(2) statusActions_def)
qed

theorem status_set_unconditionally_witness:
  "outcomes (shopWithOrder cancelled) = [] \<and>
   find (\<lambda>p. po_id p = ''po1'') (purchaseOrders (shopWithOrder cancelled))
     = Some (orderA5\<lparr>status := cancelled\<rparr>) \<and>
   purchaseOrders (handleUpdatePOStatus ''t2'' ''po1'' to_received (shopWithOrder cancelled))
     = [orderA5\<lparr>status := received\<rparr>] \<and>
   statusActions (orderA5\<lparr>status := received\<rparr>) = []"
proof -
  have h1: "outcomes (shopWithOrder cancelled) = []"
    by (simp add: shopWithOrder_def shop_def)
  have h2: "find (\<lambda>p. po_id p = ''po1'') (purchaseOrders (shopWithOrder cancelled))
      = Some (orderA5\<lparr>status := cancelled\<rparr>)"
    by (simp add: shopWithOrder_def shop_def orderA5_def)
  show ?thesis
    using h1 h2 status_set_unconditionally [OF h1 h2, of "''t2''" to_received]
    by (simp add: shopWithOrder_def shop_def orderA5_def setStatus_def)
qed

subsection \<open>Creating an order\<close>

lemma select_call:
  "gateway_call (Select t) (\<lambda>r. r) w =
     (case outcomes w of [] \<Rightarrow> Resolved | oc # rest \<Rightarrow> oc,
      w\<lparr>outcomes := tl (outcomes w), trace := trace w @ [Select t]\<rparr>)"
  by (simp add: gateway_call_def split: list.split)

lemma fetchData_remote: "remote (fetchData w) = remote w"
  by (simp add: fetchData_def select_call)

lemma fetchData_inventory:
  "inventory (fetchData w) = inventory w \<or> inventory (fetchData w) = inventory_rows (remote w)"
  by (simp add: fetchData_def select_call)

lemma handleCreatePO_store_inventory:
  "inventory_rows (remote (handleCreatePO uuid po w)) = inventory_rows (remote w)"
  by (simp add: handleCreatePO_def gateway_call_def on_error_def fetchData_remote
      insert_po_row_def Let_def split: list.split)

lemma handleCreatePO_inventory:
  "inventory (handleCreatePO uuid po w) = inventory w \<or>
   inventory (handleCreatePO uuid po w) = inventory_rows (remote w)"
proof (cases "outcomes w")
  case Nil
  then show ?thesis
    by (simp add: handleCreatePO_def gateway_call_def Let_def)
next
  case (Cons oc rest)
  show ?thesis
  proof (cases "oc = Resolved")
    case True
    then show ?thesis
      using Cons by (simp add: handleCreatePO_def gateway_call_def Let_def)
  next
    case False
    let ?newPO = "\<lparr>po_id = uuid, supplier = npo_supplier po, po_date = npo_date po,
                    status = npo_status po, po_items = npo_items po,
                    totalCost = npo_totalCost po, po_notes = npo_notes po\<rparr>"
    let ?w1 = "w\<lparr>purchaseOrders := ?newPO # purchaseOrders w, outcomes := rest,
                  trace := trace w @ [InsertPO ?newPO, Alert ''Failed to save Purchase Order.'']\<rparr>"
    have run: "handleCreatePO uuid po w = fetchData ?w1"
      using Cons False by (simp add: handleCreatePO_def gateway_call_def on_error_def Let_def)
    show ?thesis
      using fetchData_inventory [of ?w1] by (simp add: run)
  qed
qed

lemma handleCreatePO_clean:
  "outcomes w = [] \<Longrightarrow>
     handleCreatePO uuid po w =
       (let newPO = \<lparr>po_id = uuid, supplier = npo_supplier po, po_date = npo_date po,
                      status = npo_status po, po_items = npo_items po,
                      totalCost = npo_totalCost po, po_notes = npo_notes po\<rparr>
        in w\<lparr>purchaseOrders := newPO # purchaseOrders w,
             remote := insert_po_row newPO (remote w),
             trace := trace w @ [InsertPO newPO]\<rparr>)"
  by (simp add: handleCreatePO_def gateway_call_clean Let_def)

lemma tenth_value: "tenth = 3602879701896397 / 36028797018963968"
  by code_simp

lemma three_tenths:
  "fadd 0 (fmul 3 (3602879701896397 / 36028797018963968)) = 1351079888211149 / 4503599627370496"
  by code_simp

text \<open>
  Claim C8, as stated, fails.  For three pieces at the unit cost 0.1 the order's
  \<^verbatim>\<open>totalCost\<close> is 0.30000000000000004, not the sum of quantity times unit cost; and
  the identifier is not checked against the orders held: given the identifier of an
  order held, the handler leaves two orders of one identifier.
\<close>

theorem createPurchaseOrder_counterexample:
  "map totalCost (purchaseOrders (snd (handleSubmitOrder ''po9'' ''t1'' formDimes shop)))
     = [1351079888211149 / 4503599627370496] \<and>
   (\<Sum>item\<leftarrow>orderItems formDimes. poi_quantity item * unitCost item)
     = 10808639105689191 / 36028797018963968 \<and>
   map po_id (purchaseOrders (snd (handleSubmitOrder ''po1'' ''t1'' formXY (shopWithOrder ordered))))
     = [''po1'', ''po1'']"
  by (simp add: handleSubmitOrder_def handleCreatePO_def gateway_call_def formDimes_def
      formXY_def shop_def shopWithOrder_def orderA5_def tenth_value three_tenths Let_def)

text \<open>
  Claim C8, amended.  For a form with a non-empty supplier and a non-empty item list,
  submitting it never writes the inventory rows of the store, and leaves the local
  inventory as it was or, after a failed insert, as the re-fetch read it from the store.
  In a run in which every gateway call resolves cleanly it puts at the front of the
  purchase orders an order with the identifier the generator returned, the supplier, the
  current time as date, status \<^verbatim>\<open>ordered\<close>, the items, and \<^verbatim>\<open>totalCost\<close> equal to the
  double-precision sum, from the left, of the double-precision products of quantity and
  unit cost; the local inventory is untouched and the one gateway call is the insert of
  that order.  Where no product and no running sum needs rounding, \<^verbatim>\<open>totalCost\<close> is the
  sum over the items of quantity times unit cost.  Where the generator returns an
  identifier that no order held carries, the identifiers of the orders stay distinct.
\<close>

theorem createPurchaseOrder_effect:
  assumes "form_supplier form \<noteq> []" and "orderItems form \<noteq> []"
  shows "inventory_rows (remote (snd (handleSubmitOrder uuid now form w)))
           = inventory_rows (remote w) \<and>
         (inventory (snd (handleSubmitOrder uuid now form w)) = inventory w \<or>
          inventory (snd (handleSubmitOrder uuid now form w)) = inventory_rows (remote w)) \<and>
         (outcomes w = [] \<longrightarrow>
            purchaseOrders (snd (handleSubmitOrder uuid now form w))
              = \<lparr>po_id = uuid, supplier = form_supplier form, po_date = now, status = ordered,
                  po_items = orderItems form,
                  totalCost = roundedTotal poi_quantity unitCost (orderItems form),
                  po_notes = Some (form_notes form)\<rparr> # purchaseOrders w \<and>
            inventory (snd (handleSubmitOrder uuid now form w)) = inventory w \<and>
            trace (snd (handleSubmitOrder uuid now form w))
              = trace w @ [InsertPO (hd (purchaseOrders (snd (handleSubmitOrder uuid now form w))))]) \<and>
         (roundingFree poi_quantity unitCost 0 (orderItems form) \<longrightarrow>
            roundedTotal poi_quantity unitCost (orderItems form)
              = (\<Sum>item\<leftarrow>orderItems form. poi_quantity item * unitCost item)) \<and>
         (outcomes w = [] \<and> uuid \<notin> po_id ` set (purchaseOrders w) \<and>
          distinct (map po_id (purchaseOrders w)) \<longrightarrow>
            distinct (map po_id (purchaseOrders (snd (handleSubmitOrder uuid now form w)))))"
proof -
  let ?po = "\<lparr>npo_supplier = form_supplier form, npo_date = now, npo_status = ordered,
               npo_items = orderItems form,
               npo_totalCost = roundedTotal poi_quantity unitCost (orderItems form),
               npo_notes = Some (form_notes form)\<rparr>"
  have run: "snd (handleSubmitOrder uuid now form w) = handleCreatePO uuid ?po w"
    using assms by (simp add: handleSubmitOrder_def roundedTotal_def Let_def)
  have store: "inventory_rows (remote (handleCreatePO uuid ?po w)) = inventory_rows (remote w)"
    by (rule handleCreatePO_store_inventory)
  have inv: "inventory (handleCreatePO uuid ?po w) = inventory w \<or>
      inventory (handleCreatePO uuid ?po w) = inventory_rows (remote w)"
    by (rule handleCreatePO_inventory)
  show ?thesis
    unfolding run using store inv
    by (auto simp: handleCreatePO_clean Let_def roundedTotal_exact)
qed

lemma roundingFree_formXY: "roundingFree poi_quantity unitCost 0 (orderItems formXY)"
  by code_simp

theorem createPurchaseOrder_effect_witness:
  "form_supplier formXY \<noteq> [] \<and> orderItems formXY \<noteq> [] \<and> outcomes shop = [] \<and>
   roundingFree poi_quantity unitCost 0 (orderItems formXY) \<and>
   ''po9'' \<notin> po_id ` set (purchaseOrders shop) \<and> distinct (map po_id (purchaseOrders shop)) \<and>
   map totalCost (purchaseOrders (snd (handleSubmitOrder ''po9'' ''t1'' formXY shop))) = [32] \<and>
   map status (purchaseOrders (snd (handleSubmitOrder ''po9'' ''t1'' formXY shop))) = [ordered] \<and>
   map po_id (purchaseOrders (snd (handleSubmitOrder ''po9'' ''t1'' formXY shop))) = [''po9''] \<and>
   inventory (snd (handleSubmitOrder ''po9'' ''t1'' formXY shop)) = [itemA, itemB]"
proof -
  have h1: "form_supplier formXY \<noteq> []"
    by (simp add: formXY_def)
  have h2: "orderItems formXY \<noteq> []"
    by (simp add: formXY_def)
  have h3: "outcomes shop = []"
    by (simp add: shop_def)
  have h4: "''po9'' \<notin> po_id ` set (purchaseOrders shop)" "distinct (map po_id (purchaseOrders shop))"
    by (simp_all add: shop_def)
  note effect = createPurchaseOrder_effect [OF h1 h2, of "''po9''" "''t1''" shop]
  have total: "roundedTotal poi_quantity unitCost (orderItems formXY) = 32"
  proof -
    have "roundedTotal poi_quantity unitCost (orderItems formXY)
        = (\<Sum>item\<leftarrow>orderItems formXY. poi_quantity item * unitCost item)"
      using effect roundingFree_formXY by blast
    then show ?thesis
      by (simp add: formXY_def)
  qed
  have orders: "purchaseOrders (snd (handleSubmitOrder ''po9'' ''t1'' formXY shop))
      = \<lparr>po_id = ''po9'', supplier = form_supplier formXY, po_date = ''t1'', status = ordered,
          po_items = orderItems formXY,
          totalCost = roundedTotal poi_quantity unitCost (orderItems formXY),
          po_notes = Some (form_notes formXY)\<rparr> # purchaseOrders shop"
    and inv: "inventory (snd (handleSubmitOrder ''po9'' ''t1'' formXY shop)) = inventory shop"
    using effect h3 by blast+
  show ?thesis
    using h1 h2 h3 h4 roundingFree_formXY
    by (simp add: orders inv total) (simp add: shop_def)
qed

section \<open>Properties of the seven-day chart\<close>

subsection \<open>Setting the date back\<close>





subsection \<open>The keys and the sums of the chart\<close>


lemma last7: "rev (map f [0..<7]) = map f [6, 5, 4, 3, 2, 1, 0::nat]"
  by (simp add: upt_rec eval_nat_numeral)

lemma foldl_fadd_map: "foldl (\<lambda>acc s. fadd acc (f s)) a xs = foldl fadd a (map f xs)"
  by (induction xs arbitrary: a) simp_all

lemma foldl_fadd_dsum: "foldl (\<lambda>acc s. fadd acc (f s)) 0 xs = dsum (map f xs)"
  unfolding dsum_def by (rule foldl_fadd_map)

lemma chartData_keys:
  "chartData z now ss =
     map (\<lambda>i. \<lparr>cp_date = drop 5 (dayKey z now i), fullDate = dayKey z now i,
                 cp_sales = dsum (map totalAmount
                              (filter (\<lambda>s. prefix (dayKey z now i) (timestamp s)) ss)),
                 cp_profit = dsum (map totalProfit
                              (filter (\<lambda>s. prefix (dayKey z now i) (timestamp s)) ss))\<rparr>)
       [6, 5, 4, 3, 2, 1, 0]"
  unfolding chartData_def Let_def last7 foldl_fadd_dsum
  by (simp only: map_map o_def)






subsection \<open>A week in January\<close>









subsection \<open>A week across a change of offset\<close>

text \<open>
  In London at 2024-04-02T23:30Z (00:30 local time on 3 April), three days after the
  clocks went forward, the offset changes within the week: the keys repeat 31 March, and
  27 March, the UTC date six days back, has no point.
\<close>

lemma weekApril:
  "map (dayKey london clockApril) [6, 5, 4, 3, 2, 1, 0]
     = [''2024-03-28'', ''2024-03-29'', ''2024-03-30'', ''2024-03-31'', ''2024-03-31'',
        ''2024-04-01'', ''2024-04-02'']"
  by code_simp

lemma utcApril:
  "utcDate (clockApril - 6 * msPerDay) = ''2024-03-27''"
  by code_simp

lemma not_steady_london: "\<not> steadyOffset london clockApril"
  by code_simp

lemma chartData_london_april:
  "map fullDate (chartData london clockApril ss)
     = [''2024-03-28'', ''2024-03-29'', ''2024-03-30'', ''2024-03-31'', ''2024-03-31'',
        ''2024-04-01'', ''2024-04-02'']"
  using weekApril by (simp add: chartData_keys)

end
